theory Spec2Isabelle
  imports Main
begin

section \<open>Values, documents and responses\<close>

text \<open>
  The backend is an Express server (the database variant with its Mongoose \<open>User\<close> model,
  and the earlier variant with the fixed \<open>STATIC_USERS\<close> array). Request bodies are parsed
  JSON, so a body field is any JSON scalar or is missing (\<open>undefined\<close>). Numbers are only
  ever tested for being zero, so they are integers here. \<open>JObjectId\<close> is the store's
  generated \<open>_id\<close>.
\<close>

datatype jsval =
    JUndefined
  | JNull
  | JBool bool
  | JNum int
  | JStr string
  | JObjectId nat

text \<open>JavaScript's truthiness, as \<open>!username || !password\<close> tests it.\<close>

fun truthy :: "jsval \<Rightarrow> bool" where
  "truthy JUndefined = False"
| "truthy JNull = False"
| "truthy (JBool b) = b"
| "truthy (JNum n) = (n \<noteq> 0)"
| "truthy (JStr s) = (s \<noteq> [])"
| "truthy (JObjectId n) = True"

type_synonym obj = "(string \<times> jsval) list"

text \<open>Reading a property of an object: a missing key reads as \<open>undefined\<close>.\<close>

definition field :: "obj \<Rightarrow> string \<Rightarrow> jsval" where
  "field b k = (case map_of b k of None \<Rightarrow> JUndefined | Some v \<Rightarrow> v)"

text \<open>The rest of an object after one key is destructured away
  (\<open>const { password: userPassword, ...userWithoutPassword } = ...\<close>).\<close>

definition omit :: "string \<Rightarrow> obj \<Rightarrow> obj" where
  "omit k b = filter (\<lambda>kv. fst kv \<noteq> k) b"

definition has_key :: "obj \<Rightarrow> string \<Rightarrow> bool" where
  "has_key b k = (k \<in> set (map fst b))"

text \<open>The \<open>userSchema\<close>: \<open>username\<close> (unique), \<open>password\<close> (hashed), \<open>name\<close>, \<open>role\<close>,
  \<open>department\<close>; \<open>uid\<close> is \<open>_id\<close> (\<open>id\<close> in the static variant). A \<open>String\<close> path of a
  document is not set, holds an explicit \<open>null\<close>, or holds a string.\<close>

datatype text_field = Unset | IsNull | Text string

record user_doc =
  uid :: jsval
  username :: string
  password :: string
  name :: text_field
  role :: text_field
  department :: text_field

text \<open>What a handler or a library call can throw.\<close>

datatype js_error = StoreError | DuplicateKey | CastError | BcryptError

datatype jwt_error = TokenExpired | TokenInvalid

record claims =
  claim_id :: jsval
  claim_username :: string
  claim_role :: text_field
  iat :: nat
  exp :: nat

text \<open>Response bodies: \<open>{message}\<close>, \<open>{message, token, user}\<close> and \<open>{user}\<close>.\<close>

datatype json_body =
    Message string
  | LoginBody string string obj
  | UserBody obj

type_synonym response = "nat \<times> json_body"

record request =
  authorization :: "string option"
  body :: obj
  user :: "claims option"

section \<open>The libraries the code calls\<close>

text \<open>
  \<open>bcrypt\<close>, \<open>jsonwebtoken\<close> and Mongoose's casting are not part of the repository. What
  they compute is a parameter of the model: the hash and the comparison of \<open>bcrypt\<close> (each
  may throw), Mongoose's cast of a value that is not a string to the schema's \<open>String\<close>
  and of a value that is not an \<open>ObjectId\<close> to an \<open>_id\<close>, and the token codec (the header
  segment, the payload encoding and its decoding, and the keyed signature).
\<close>

record libs =
  bcrypt_hash_fn :: "jsval \<Rightarrow> js_error + string"
  bcrypt_compare_fn :: "jsval \<Rightarrow> string \<Rightarrow> js_error + bool"
  cast_nonstring :: "jsval \<Rightarrow> js_error + string"
  cast_nonid :: "jsval \<Rightarrow> js_error + jsval"
  jwt_header :: string
  jwt_encode :: "claims \<Rightarrow> string"
  jwt_decode :: "string \<Rightarrow> claims option"
  jwt_hmac :: "string \<Rightarrow> string \<Rightarrow> string"

definition JWT_SECRET :: string where
  "JWT_SECRET = ''your-government-secret-key-change-in-production''"

text \<open>\<open>expiresIn: '24h'\<close>, in seconds.\<close>

definition expires_24h :: nat where
  "expires_24h = 24 * 60 * 60"

text \<open>\<open>String.prototype.split\<close> on a one-character separator: every occurrence cuts, so
  the result is never empty and may hold empty segments.\<close>

fun split_on :: "char \<Rightarrow> string \<Rightarrow> string list" where
  "split_on c [] = [[]]"
| "split_on c (x # xs) =
     (if x = c then [] # split_on c xs
      else (case split_on c xs of
              [] \<Rightarrow> [[x]]
            | s # ss \<Rightarrow> (x # s) # ss))"

text \<open>\<open>xs[i]\<close> of JavaScript: \<open>undefined\<close> out of range.\<close>

definition index_opt :: "'a list \<Rightarrow> nat \<Rightarrow> 'a option" where
  "index_opt xs i = (if i < length xs then Some (xs ! i) else None)"

subsection \<open>The token issuer and verifier\<close>

text \<open>
  \<open>jwt.sign\<close> and \<open>jwt.verify\<close> are the \<open>jsonwebtoken\<close> library, which is not among the
  sources; the three definitions below follow the spec's Token Issuer/Verifier instead.
  \<open>issue\<close> signs a claim set (subject id, username, role, issued-at, expiry) with the
  secret and the given validity, as three dot-separated segments (header, payload,
  signature); \<open>verify\<close> fails with \<open>Invalid\<close> if the structure is malformed or the signature
  does not match, and with \<open>Expired\<close> if the expiry has passed. Time is in whole seconds.
\<close>

text \<open>Modelled from the spec: the claim set of an issued token, with its issued-at and
  expiry times.\<close>

definition claim_set :: "jsval \<times> string \<times> text_field \<Rightarrow> nat \<Rightarrow> nat \<Rightarrow> claims" where
  "claim_set payload expiresIn now =
     (case payload of (i, u, r) \<Rightarrow>
        \<lparr>claim_id = i, claim_username = u, claim_role = r, iat = now, exp = now + expiresIn\<rparr>)"

text \<open>Modelled from the spec: \<open>issue\<close> of the Token Issuer (\<open>jwt.sign\<close> is not among the
  sources): the header, the encoded claim set and the signature over the two, joined by
  dots.\<close>

definition jwt_sign ::
  "libs \<Rightarrow> jsval \<times> string \<times> text_field \<Rightarrow> string \<Rightarrow> nat \<Rightarrow> nat \<Rightarrow> string" where
  "jwt_sign L payload secret expiresIn now =
     (let signing_input = jwt_header L @ ''.'' @ jwt_encode L (claim_set payload expiresIn now)
      in signing_input @ ''.'' @ jwt_hmac L secret signing_input)"

text \<open>Modelled from the spec: \<open>verify\<close> of the Token Verifier (\<open>jwt.verify\<close> is not among
  the sources): the structure first, then the signature, then the expiry.\<close>

definition jwt_verify :: "libs \<Rightarrow> string \<Rightarrow> string \<Rightarrow> nat \<Rightarrow> jwt_error + claims" where
  "jwt_verify L token secret now =
     (case split_on CHR ''.'' token of
        [h, p, s] \<Rightarrow>
          (case jwt_decode L p of
             None \<Rightarrow> Inl TokenInvalid
           | Some c \<Rightarrow>
               if s \<noteq> jwt_hmac L secret (h @ ''.'' @ p) then Inl TokenInvalid
               else if exp c \<le> now then Inl TokenExpired
               else Inr c)
      | _ \<Rightarrow> Inl TokenInvalid)"

text \<open>What the round trip needs of the codec, for one claim set: decoding undoes the
  encoding, and no segment holds the separator (the base64url alphabet has no dot).\<close>

definition codec_ok :: "libs \<Rightarrow> string \<Rightarrow> claims \<Rightarrow> bool" where
  "codec_ok L secret c =
     (jwt_decode L (jwt_encode L c) = Some c
      \<and> CHR ''.'' \<notin> set (jwt_header L)
      \<and> CHR ''.'' \<notin> set (jwt_encode L c)
      \<and> CHR ''.'' \<notin> set (jwt_hmac L secret (jwt_header L @ ''.'' @ jwt_encode L c)))"

subsection \<open>A standard codec\<close>

text \<open>
  Modelled from the spec: the encoding is a standard signed-claims format, three
  dot-separated base64url segments (header, payload, signature). The library's own codec
  is not among the sources, so the definitions below give a concrete one on which the
  round trip can be proved: every segment is the base64url text of its bytes.
\<close>

text \<open>The base64url alphabet; a character's value is its position. \<open>b64_char\<close> is only
  ever applied to a value below 64.\<close>

definition b64_alphabet :: string where
  "b64_alphabet = ''ABCDEFGHIJKLMNOPQRSTUVWXYZabcdefghijklmnopqrstuvwxyz0123456789-_''"

definition b64_char :: "nat \<Rightarrow> char" where
  "b64_char n = b64_alphabet ! n"

fun index_of :: "'a list \<Rightarrow> 'a \<Rightarrow> nat option" where
  "index_of [] x = None"
| "index_of (y # ys) x = (if x = y then Some 0 else map_option Suc (index_of ys x))"

definition b64_val :: "char \<Rightarrow> nat option" where
  "b64_val c = index_of b64_alphabet c"

text \<open>Modelled from the spec: the base64url text of a byte string, without padding: three
  bytes give four characters, a rest of two bytes three, a rest of one byte two.\<close>

fun base64url :: "string \<Rightarrow> string" where
  "base64url (a # b # c # rest) =
     (let n = (of_char a * 256 + of_char b) * 256 + of_char c :: nat
      in b64_char (n div 262144) # b64_char (n div 4096 mod 64) # b64_char (n div 64 mod 64)
           # b64_char (n mod 64) # base64url rest)"
| "base64url [a, b] =
     (let n = (of_char a * 256 + of_char b) * 4 :: nat
      in [b64_char (n div 4096), b64_char (n div 64 mod 64), b64_char (n mod 64)])"
| "base64url [a] =
     (let n = of_char a * 16 :: nat
      in [b64_char (n div 64), b64_char (n mod 64)])"
| "base64url [] = []"

text \<open>Modelled from the spec: reading base64url text back; a character outside the alphabet and
  a rest of one character are refused.\<close>

fun unbase64url :: "string \<Rightarrow> string option" where
  "unbase64url (w # x # y # z # rest) =
     (case (b64_val w, b64_val x, b64_val y, b64_val z) of
        (Some p, Some q, Some r, Some s) \<Rightarrow>
          (case unbase64url rest of
             None \<Rightarrow> None
           | Some t \<Rightarrow>
               let n = ((p * 64 + q) * 64 + r) * 64 + s
               in Some (char_of (n div 65536) # char_of (n div 256 mod 256)
                          # char_of (n mod 256) # t))
      | _ \<Rightarrow> None)"
| "unbase64url [w, x, y] =
     (case (b64_val w, b64_val x, b64_val y) of
        (Some p, Some q, Some r) \<Rightarrow>
          let n = (p * 64 + q) * 64 + r
          in Some [char_of (n div 1024), char_of (n div 4 mod 256)]
      | _ \<Rightarrow> None)"
| "unbase64url [w, x] =
     (case (b64_val w, b64_val x) of
        (Some p, Some q) \<Rightarrow> Some [char_of ((p * 64 + q) div 16)]
      | _ \<Rightarrow> None)"
| "unbase64url [w] = None"
| "unbase64url [] = Some []"

text \<open>A number as bytes, the low byte first, and back.\<close>

fun nat_bytes :: "nat \<Rightarrow> string" where
  "nat_bytes n = (if n < 256 then [char_of n] else char_of (n mod 256) # nat_bytes (n div 256))"

fun bytes_nat :: "string \<Rightarrow> nat" where
  "bytes_nat [] = 0"
| "bytes_nat (c # cs) = of_char c + 256 * bytes_nat cs"

text \<open>The text of a store \<open>ObjectId\<close>: 24 hex digits.\<close>

definition hex_digit :: "nat \<Rightarrow> char" where
  "hex_digit k = ''0123456789abcdef'' ! k"

fun hex_of :: "nat \<Rightarrow> nat \<Rightarrow> string" where
  "hex_of 0 n = []"
| "hex_of (Suc k) n = hex_of k (n div 16) @ [hex_digit (n mod 16)]"

definition objectid_hex :: "nat \<Rightarrow> string" where
  "objectid_hex n = hex_of 24 n"

text \<open>Modelled from the spec: the value a token carries for a value of the program. A token
  is text, so an \<open>ObjectId\<close> travels as its hex string; every other value travels as itself.\<close>

definition token_value :: "jsval \<Rightarrow> jsval" where
  "token_value v = (case v of JObjectId n \<Rightarrow> JStr (objectid_hex n) | _ \<Rightarrow> v)"

definition is_object_id :: "jsval \<Rightarrow> bool" where
  "is_object_id v = (case v of JObjectId n \<Rightarrow> True | _ \<Rightarrow> False)"

text \<open>One value as a tagged field: the tag, then the base64url text of the content, so that
  no separator occurs inside a field.\<close>

fun value_text :: "jsval \<Rightarrow> string" where
  "value_text JUndefined = ''u''"
| "value_text JNull = ''n''"
| "value_text (JBool b) = (if b then ''t'' else ''f'')"
| "value_text (JNum i) =
     (if i < 0 then CHR ''-'' # base64url (nat_bytes (nat (- i)))
      else CHR ''+'' # base64url (nat_bytes (nat i)))"
| "value_text (JStr s) = CHR ''s'' # base64url s"
| "value_text (JObjectId n) = CHR ''s'' # base64url (objectid_hex n)"

fun parse_value :: "string \<Rightarrow> jsval option" where
  "parse_value [] = None"
| "parse_value (tag # rest) =
     (if tag = CHR ''s'' then map_option JStr (unbase64url rest)
      else if tag = CHR ''+'' then map_option (\<lambda>bs. JNum (int (bytes_nat bs))) (unbase64url rest)
      else if tag = CHR ''-'' then map_option (\<lambda>bs. JNum (- int (bytes_nat bs))) (unbase64url rest)
      else if rest \<noteq> [] then None
      else if tag = CHR ''u'' then Some JUndefined
      else if tag = CHR ''n'' then Some JNull
      else if tag = CHR ''t'' then Some (JBool True)
      else if tag = CHR ''f'' then Some (JBool False)
      else None)"

text \<open>A \<open>role\<close> as a value, and back.\<close>

fun field_value :: "text_field \<Rightarrow> jsval" where
  "field_value Unset = JUndefined"
| "field_value IsNull = JNull"
| "field_value (Text s) = JStr s"

fun value_field :: "jsval \<Rightarrow> text_field option" where
  "value_field JUndefined = Some Unset"
| "value_field JNull = Some IsNull"
| "value_field (JStr s) = Some (Text s)"
| "value_field v = None"

text \<open>Modelled from the spec: the payload bytes of a claim set (subject id, username, role,
  issued-at, expiry), as five fields separated by commas; it stands in for the library's
  JSON text.\<close>

definition claims_text :: "claims \<Rightarrow> string" where
  "claims_text c =
     value_text (claim_id c) @ '','' @ base64url (claim_username c) @ '',''
     @ value_text (field_value (claim_role c)) @ '','' @ base64url (nat_bytes (iat c)) @ '',''
     @ base64url (nat_bytes (exp c))"

definition parse_claims :: "string \<Rightarrow> claims option" where
  "parse_claims t =
     (case split_on CHR '','' t of
        [a, b, c, d, e] \<Rightarrow>
          (case (parse_value a, unbase64url b, Option.bind (parse_value c) value_field,
                 unbase64url d, unbase64url e) of
             (Some i, Some u, Some r, Some x, Some y) \<Rightarrow>
               Some \<lparr>claim_id = i, claim_username = u, claim_role = r,
                     iat = bytes_nat x, exp = bytes_nat y\<rparr>
           | _ \<Rightarrow> None)
      | _ \<Rightarrow> None)"

text \<open>Modelled from the spec: the payload segment is the base64url text of the payload bytes.\<close>

definition std_encode :: "claims \<Rightarrow> string" where
  "std_encode c = base64url (claims_text c)"

definition std_decode :: "string \<Rightarrow> claims option" where
  "std_decode p = (case unbase64url p of None \<Rightarrow> None | Some t \<Rightarrow> parse_claims t)"

text \<open>Modelled from the spec: the issuer and verifier with this codec. The header segment
  and the signature segment are base64url text too; the keyed MAC itself (\<open>mac\<close>) stays a
  parameter.\<close>

definition header_text :: string where
  \<open>header_text = ''{"alg":"HS256","typ":"JWT"}''\<close>

definition standard_libs :: "(string \<Rightarrow> string \<Rightarrow> string) \<Rightarrow> libs \<Rightarrow> libs" where
  "standard_libs mac L =
     L\<lparr>jwt_header := base64url header_text, jwt_encode := std_encode,
       jwt_decode := std_decode, jwt_hmac := (\<lambda>k m. base64url (mac k m))\<rparr>"

declare nat_bytes.simps [simp del]

section \<open>The auth middleware\<close>

text \<open>
  \<open>authenticateToken\<close> (the same text in both variants) either answers itself or calls
  \<open>next()\<close> with \<open>req.user\<close> set.
  \<^verbatim>\<open>
  const authHeader = req.headers['authorization'];
  const token = authHeader && authHeader.split(' ')[1];
  if (!token) return res.status(401).json({ message: 'Access token required' });
  jwt.verify(token, JWT_SECRET, (err, user) => {
    if (err) return res.status(403).json({ message: 'Invalid or expired token' });
    req.user = user;
    next();
  });
  \<close>
\<close>

datatype gate = Responded response | Next request

text \<open>\<open>authHeader && authHeader.split(' ')[1]\<close>: \<open>undefined\<close> stays \<open>undefined\<close>, the empty
  string stays the empty string, anything else gives the second segment or \<open>undefined\<close>.\<close>

definition header_token :: "string option \<Rightarrow> string option" where
  "header_token authHeader =
     (case authHeader of
        None \<Rightarrow> None
      | Some a \<Rightarrow> if a = [] then Some [] else index_opt (split_on CHR '' '' a) 1)"

definition authenticateToken :: "libs \<Rightarrow> nat \<Rightarrow> request \<Rightarrow> gate" where
  "authenticateToken L now req =
     (case header_token (authorization req) of
        None \<Rightarrow> Responded (401, Message ''Access token required'')
      | Some token \<Rightarrow>
          if token = [] then Responded (401, Message ''Access token required'')
          else (case jwt_verify L token JWT_SECRET now of
                  Inl err \<Rightarrow> Responded (403, Message ''Invalid or expired token'')
                | Inr c \<Rightarrow> Next (req\<lparr>user := Some c\<rparr>)))"

section \<open>The credential store\<close>

text \<open>
  The \<open>User\<close> collection, with what else a run can change or depend on: the ids the store
  has handed out, the data \<open>bcrypt.hash\<close> was called on, the console, and a script of the
  store's failures. Each round trip to the store takes the head of \<open>faults\<close>; \<open>True\<close>
  makes that call reject (a lost connection), and an empty script means no failure.
\<close>

datatype log_entry = Info string | Failure string js_error

record world =
  users :: "user_doc list"
  next_id :: nat
  hashed :: "jsval list"
  faults :: "bool list"
  logs :: "log_entry list"

definition next_fault :: "world \<Rightarrow> bool" where
  "next_fault w = (case faults w of [] \<Rightarrow> False | f # fs \<Rightarrow> f)"

definition consume :: "world \<Rightarrow> world" where
  "consume w = w\<lparr>faults := tl (faults w)\<rparr>"

definition console :: "log_entry \<Rightarrow> world \<Rightarrow> world" where
  "console e w = w\<lparr>logs := logs w @ [e]\<rparr>"

text \<open>The schema's \<open>String\<close> cast; a field that is \<open>undefined\<close> is not set, and \<open>null\<close> is
  kept as \<open>null\<close>.\<close>

definition cast_string :: "libs \<Rightarrow> jsval \<Rightarrow> js_error + string" where
  "cast_string L v = (case v of JStr s \<Rightarrow> Inr s | _ \<Rightarrow> cast_nonstring L v)"

definition cast_opt :: "libs \<Rightarrow> jsval \<Rightarrow> js_error + text_field" where
  "cast_opt L v =
     (case v of
        JUndefined \<Rightarrow> Inr Unset
      | JNull \<Rightarrow> Inr IsNull
      | _ \<Rightarrow> (case cast_string L v of Inl e \<Rightarrow> Inl e | Inr s \<Rightarrow> Inr (Text s)))"

definition cast_id :: "libs \<Rightarrow> jsval \<Rightarrow> js_error + jsval" where
  "cast_id L v = (case v of JObjectId n \<Rightarrow> Inr (JObjectId n) | _ \<Rightarrow> cast_nonid L v)"

text \<open>\<open>User.findOne({ username })\<close>.\<close>

definition findOne :: "libs \<Rightarrow> jsval \<Rightarrow> world \<Rightarrow> (js_error + user_doc option) \<times> world" where
  "findOne L q w =
     (case cast_string L q of
        Inl e \<Rightarrow> (Inl e, w)
      | Inr s \<Rightarrow>
          if next_fault w then (Inl StoreError, consume w)
          else (Inr (find (\<lambda>u. username u = s) (users w)), consume w))"

text \<open>\<open>User.findById(id)\<close>.\<close>

definition findById :: "libs \<Rightarrow> jsval \<Rightarrow> world \<Rightarrow> (js_error + user_doc option) \<times> world" where
  "findById L i w =
     (case cast_id L i of
        Inl e \<Rightarrow> (Inl e, w)
      | Inr k \<Rightarrow>
          if next_fault w then (Inl StoreError, consume w)
          else (Inr (find (\<lambda>u. uid u = k) (users w)), consume w))"

text \<open>
  \<open>User.create({...})\<close>, and \<open>new User({...})\<close> followed by \<open>save()\<close>: the fields are cast,
  then the document is inserted under a fresh \<open>_id\<close>. \<open>username\<close> is declared
  \<open>unique: true\<close>, so the store refuses a second document with the same username.
\<close>

definition create ::
  "libs \<Rightarrow> jsval \<Rightarrow> string \<Rightarrow> jsval \<Rightarrow> jsval \<Rightarrow> jsval \<Rightarrow> world \<Rightarrow> (js_error + user_doc) \<times> world" where
  "create L un hashedPassword nm rl dp w =
     (case cast_string L un of Inl e \<Rightarrow> (Inl e, w) | Inr us \<Rightarrow>
     (case cast_opt L nm of Inl e \<Rightarrow> (Inl e, w) | Inr ns \<Rightarrow>
     (case cast_opt L rl of Inl e \<Rightarrow> (Inl e, w) | Inr rs \<Rightarrow>
     (case cast_opt L dp of Inl e \<Rightarrow> (Inl e, w) | Inr ds \<Rightarrow>
        if next_fault w then (Inl StoreError, consume w)
        else if us \<in> set (map username (users w)) then (Inl DuplicateKey, consume w)
        else
          let doc = \<lparr>uid = JObjectId (next_id w), username = us, password = hashedPassword,
                     name = ns, role = rs, department = ds\<rparr>
          in (Inr doc, (consume w)\<lparr>users := users w @ [doc], next_id := Suc (next_id w)\<rparr>)))))"

text \<open>\<open>bcrypt.hash(data, 10)\<close>; the world records that a hash was computed.\<close>

definition bcrypt_hash :: "libs \<Rightarrow> jsval \<Rightarrow> world \<Rightarrow> (js_error + string) \<times> world" where
  "bcrypt_hash L dat w = (bcrypt_hash_fn L dat, w\<lparr>hashed := hashed w @ [dat]\<rparr>)"

text \<open>\<open>user.toObject()\<close>: every stored field, with the store's \<open>_id\<close> and \<open>__v\<close>.\<close>

definition opt_field :: "string \<Rightarrow> text_field \<Rightarrow> obj" where
  "opt_field k v = (case v of Unset \<Rightarrow> [] | IsNull \<Rightarrow> [(k, JNull)] | Text s \<Rightarrow> [(k, JStr s)])"

definition toObject :: "user_doc \<Rightarrow> obj" where
  "toObject u =
     [(''_id'', uid u), (''username'', JStr (username u)), (''password'', JStr (password u))]
     @ opt_field ''name'' (name u) @ opt_field ''role'' (role u)
     @ opt_field ''department'' (department u) @ [(''__v'', JNum 0)]"

text \<open>\<open>.select("-password")\<close>: the projection that leaves one field out.\<close>

definition select_minus :: "string \<Rightarrow> user_doc \<Rightarrow> obj" where
  "select_minus k u = filter (\<lambda>kv. fst kv \<noteq> k) (toObject u)"

section \<open>The bootstrap seeder\<close>

text \<open>
  \<open>seedDefaultUsers\<close>: both lookups first, then the two blocks, all inside one \<open>try\<close>
  whose \<open>catch\<close> logs the error. One block of the source is
  \<^verbatim>\<open>
  if (!existingAdmin) {
    const hashedPassword = await bcrypt.hash("government123", 10);
    await User.create({ username: "admin", password: hashedPassword, ... });
    console.log("Admin user seeded");
  }
  \<close>
  \<open>seed_block\<close> is the body of such a block; \<open>Inl\<close> is the exception leaving it.
\<close>

definition seed_block ::
  "libs \<Rightarrow> string \<Rightarrow> string \<Rightarrow> string \<Rightarrow> string \<Rightarrow> string \<Rightarrow> string \<Rightarrow> world
     \<Rightarrow> (js_error \<times> world) + world" where
  "seed_block L un pw nm rl dp msg w =
     (case bcrypt_hash L (JStr pw) w of
        (Inl e, w1) \<Rightarrow> Inl (e, w1)
      | (Inr hashedPassword, w1) \<Rightarrow>
          (case create L (JStr un) hashedPassword (JStr nm) (JStr rl) (JStr dp) w1 of
             (Inl e, w2) \<Rightarrow> Inl (e, w2)
           | (Inr doc, w2) \<Rightarrow> Inr (console (Info msg) w2)))"

definition seed_catch :: "js_error \<Rightarrow> world \<Rightarrow> world" where
  "seed_catch e w = console (Failure ''Error seeding users:'' e) w"

definition seedDefaultUsers :: "libs \<Rightarrow> world \<Rightarrow> world" where
  "seedDefaultUsers L w =
     (case findOne L (JStr ''admin'') w of
        (Inl e, w1) \<Rightarrow> seed_catch e w1
      | (Inr existingAdmin, w1) \<Rightarrow>
     (case findOne L (JStr ''officer'') w1 of
        (Inl e, w2) \<Rightarrow> seed_catch e w2
      | (Inr existingOfficer, w2) \<Rightarrow>
     (case (if existingAdmin = None
            then seed_block L ''admin'' ''government123'' ''Administrator'' ''admin''
                   ''System Administration'' ''Admin user seeded'' w2
            else Inr w2) of
        Inl (e, w3) \<Rightarrow> seed_catch e w3
      | Inr w3 \<Rightarrow>
     (case (if existingOfficer = None
            then seed_block L ''officer'' ''officer456'' ''John Officer'' ''officer''
                   ''Public Services'' ''Officer user seeded'' w3
            else Inr w3) of
        Inl (e, w4) \<Rightarrow> seed_catch e w4
      | Inr w4 \<Rightarrow> w4))))"

section \<open>The endpoints of the database variant\<close>

definition internal_error :: "string \<Rightarrow> js_error \<Rightarrow> world \<Rightarrow> response \<times> world" where
  "internal_error what e w = ((500, Message ''Internal server error''), console (Failure what e) w)"

text \<open>\<open>POST /api/register\<close>.\<close>

definition register :: "libs \<Rightarrow> request \<Rightarrow> world \<Rightarrow> response \<times> world" where
  "register L req w =
     (let un = field (body req) ''username'';
          pw = field (body req) ''password'';
          nm = field (body req) ''name'';
          rl = field (body req) ''role'';
          dp = field (body req) ''department''
      in if \<not> truthy un \<or> \<not> truthy pw
         then ((400, Message ''Username and password required''), w)
         else (case bcrypt_hash L pw w of
                 (Inl e, w1) \<Rightarrow> internal_error ''Register error:'' e w1
               | (Inr hashedPassword, w1) \<Rightarrow>
                   (case create L un hashedPassword nm rl dp w1 of
                      (Inl e, w2) \<Rightarrow> internal_error ''Register error:'' e w2
                    | (Inr doc, w2) \<Rightarrow> ((201, Message ''User registered successfully''), w2))))"

text \<open>\<open>POST /api/login\<close>.\<close>

definition login :: "libs \<Rightarrow> nat \<Rightarrow> request \<Rightarrow> world \<Rightarrow> response \<times> world" where
  "login L now req w =
     (let un = field (body req) ''username'';
          pw = field (body req) ''password''
      in if \<not> truthy un \<or> \<not> truthy pw
         then ((400, Message ''Username and password are required''), w)
         else (case findOne L un w of
                 (Inl e, w1) \<Rightarrow> internal_error ''Login error:'' e w1
               | (Inr None, w1) \<Rightarrow> ((401, Message ''Invalid credentials''), w1)
               | (Inr (Some usr), w1) \<Rightarrow>
                   (case bcrypt_compare_fn L pw (password usr) of
                      Inl e \<Rightarrow> internal_error ''Login error:'' e w1
                    | Inr isPasswordValid \<Rightarrow>
                        if \<not> isPasswordValid then ((401, Message ''Invalid credentials''), w1)
                        else
                          let token = jwt_sign L (uid usr, username usr, role usr)
                                        JWT_SECRET expires_24h now;
                              userWithoutPassword = omit ''password'' (toObject usr)
                          in ((200, LoginBody ''Login successful'' token userWithoutPassword),
                              w1))))"

text \<open>A route behind the middleware: \<open>app.get(path, authenticateToken, handler)\<close>.\<close>

definition protected ::
  "libs \<Rightarrow> nat \<Rightarrow> (request \<Rightarrow> world \<Rightarrow> response \<times> world) \<Rightarrow> request \<Rightarrow> world
     \<Rightarrow> response \<times> world" where
  "protected L now handler req w =
     (case authenticateToken L now req of
        Responded r \<Rightarrow> (r, w)
      | Next req' \<Rightarrow> handler req' w)"

text \<open>The handler of \<open>GET /api/user\<close>; reading \<open>req.user.id\<close> of a request the middleware
  has not passed throws.\<close>

definition user_handler :: "libs \<Rightarrow> request \<Rightarrow> world \<Rightarrow> response \<times> world" where
  "user_handler L req w =
     (case user req of
        None \<Rightarrow> internal_error ''User fetch error:'' CastError w
      | Some c \<Rightarrow>
          (case findById L (claim_id c) w of
             (Inl e, w1) \<Rightarrow> internal_error ''User fetch error:'' e w1
           | (Inr None, w1) \<Rightarrow> ((404, Message ''User not found''), w1)
           | (Inr (Some usr), w1) \<Rightarrow> ((200, UserBody (select_minus ''password'' usr)), w1)))"

definition get_user :: "libs \<Rightarrow> nat \<Rightarrow> request \<Rightarrow> world \<Rightarrow> response \<times> world" where
  "get_user L now req w = protected L now (user_handler L) req w"

section \<open>The static variant\<close>

definition STATIC_USERS :: "user_doc list" where
  "STATIC_USERS =
     [\<lparr>uid = JNum 1, username = ''admin'',
       password = ''$2b$10$gG9AA3ay2hfKLzdkIcEry.LdnYXJgxRCZqfeNM5jVXCWN8fXO9ryq'',
       name = Text ''Administrator'', role = Text ''admin'',
       department = Text ''System Administration''\<rparr>,
      \<lparr>uid = JNum 2, username = ''officer'',
       password = ''$2b$10$oA4YewNVMnhI/reNaDf9iOqQ3yLLqz8r.CF5wt6PvCZbm05q0X5XS'',
       name = Text ''John Officer'', role = Text ''officer'',
       department = Text ''Public Services''\<rparr>]"

text \<open>\<open>STATIC_USERS.find(user => user.username === username)\<close>: strict equality, so only a
  string matches.\<close>

definition findUserByUsername :: "jsval \<Rightarrow> user_doc option" where
  "findUserByUsername v = find (\<lambda>u. JStr (username u) = v) STATIC_USERS"

definition static_object :: "user_doc \<Rightarrow> obj" where
  "static_object u =
     [(''id'', uid u), (''username'', JStr (username u)), (''password'', JStr (password u))]
     @ opt_field ''name'' (name u) @ opt_field ''role'' (role u)
     @ opt_field ''department'' (department u)"

definition login_static :: "libs \<Rightarrow> nat \<Rightarrow> request \<Rightarrow> response" where
  "login_static L now req =
     (let un = field (body req) ''username'';
          pw = field (body req) ''password''
      in if \<not> truthy un \<or> \<not> truthy pw
         then (400, Message ''Username and password are required'')
         else (case findUserByUsername un of
                 None \<Rightarrow> (401, Message ''Invalid credentials'')
               | Some usr \<Rightarrow>
                   (case bcrypt_compare_fn L pw (password usr) of
                      Inl e \<Rightarrow> (500, Message ''Internal server error'')
                    | Inr isPasswordValid \<Rightarrow>
                        if \<not> isPasswordValid then (401, Message ''Invalid credentials'')
                        else
                          let token = jwt_sign L (uid usr, username usr, role usr)
                                        JWT_SECRET expires_24h now;
                              userWithoutPassword = omit ''password'' (static_object usr)
                          in (200, LoginBody ''Login successful'' token userWithoutPassword))))"

section \<open>Predicates of the properties\<close>

text \<open>A body field that is a string or is missing: the values Mongoose's \<open>String\<close> cast
  takes as they are.\<close>

definition text_or_missing :: "jsval \<Rightarrow> bool" where
  "text_or_missing v = (case v of JUndefined \<Rightarrow> True | JStr s \<Rightarrow> True | _ \<Rightarrow> False)"

text \<open>A response body that carries a user object with a \<open>password\<close> key.\<close>

definition exposes_password :: "json_body \<Rightarrow> bool" where
  "exposes_password b =
     (case b of
        Message m \<Rightarrow> False
      | LoginBody m t ob \<Rightarrow> has_key ob ''password''
      | UserBody ob \<Rightarrow> has_key ob ''password'')"

section \<open>A concrete instance\<close>

text \<open>A small instance of the libraries, to run the model on: a reversing "hash" and a
  comparison that both throw on a value that is not a string, as \<open>bcrypt\<close> does, casts that
  refuse everything, and a token codec that knows one claim set.\<close>

definition demo_claims :: claims where
  "demo_claims = \<lparr>claim_id = JObjectId 0, claim_username = ''admin'',
                   claim_role = Text ''admin'', iat = 1000, exp = 1000 + expires_24h\<rparr>"

definition demo_libs :: libs where
  "demo_libs =
     \<lparr>bcrypt_hash_fn = (\<lambda>v. case v of JStr s \<Rightarrow> Inr (''$'' @ rev s) | _ \<Rightarrow> Inl BcryptError),
      bcrypt_compare_fn =
        (\<lambda>v h. case v of JStr s \<Rightarrow> Inr (h = ''$'' @ rev s) | _ \<Rightarrow> Inl BcryptError),
      cast_nonstring = (\<lambda>v. Inl CastError),
      cast_nonid = (\<lambda>v. Inl CastError),
      jwt_header = ''H'',
      jwt_encode = (\<lambda>c. if c = demo_claims then ''P'' else ''Q''),
      jwt_decode = (\<lambda>s. if s = ''P'' then Some demo_claims else None),
      jwt_hmac = (\<lambda>k m. if k = JWT_SECRET then ''S'' else ''T'')\<rparr>"

text \<open>A stand-in for the keyed MAC.\<close>

definition demo_mac :: "string \<Rightarrow> string \<Rightarrow> string" where
  "demo_mac k m = k @ m"

definition empty_world :: world where
  "empty_world = \<lparr>users = [], next_id = 0, hashed = [], faults = [], logs = []\<rparr>"

definition demo_request :: "string option \<Rightarrow> obj \<Rightarrow> request" where
  "demo_request h b = \<lparr>authorization = h, body = b, user = None\<rparr>"

definition demo_creds :: "string \<Rightarrow> string \<Rightarrow> request" where
  "demo_creds u p = demo_request None [(''username'', JStr u), (''password'', JStr p)]"

text \<open>A login body whose password is the JSON number 123.\<close>

definition demo_numeric :: "string \<Rightarrow> request" where
  "demo_numeric u = demo_request None [(''username'', JStr u), (''password'', JNum 123)]"

text \<open>The store after a first start on an empty collection, under the demo hash.\<close>

definition seeded_users :: "user_doc list" where
  "seeded_users =
     [\<lparr>uid = JObjectId 0, username = ''admin'', password = ''$321tnemnrevog'',
       name = Text ''Administrator'', role = Text ''admin'',
       department = Text ''System Administration''\<rparr>,
      \<lparr>uid = JObjectId 1, username = ''officer'', password = ''$654reciffo'',
       name = Text ''John Officer'', role = Text ''officer'',
       department = Text ''Public Services''\<rparr>]"

definition seeded_world :: world where
  "seeded_world =
     \<lparr>users = seeded_users, next_id = 2,
      hashed = [JStr ''government123'', JStr ''officer456''], faults = [],
      logs = [Info ''Admin user seeded'', Info ''Officer user seeded'']\<rparr>"

text \<open>An empty collection whose third store call, the first \<open>User.create\<close>, will fail.\<close>

definition faulty_world :: world where
  "faulty_world = empty_world\<lparr>faults := [False, False, True]\<rparr>"

section \<open>Splitting strings\<close>

lemma split_on_not_Nil: "split_on c s \<noteq> []"
  by (induction s) (auto split: list.splits)

lemma split_on_no_sep: "c \<notin> set s \<Longrightarrow> split_on c s = [s]"
  by (induction s) auto

lemma split_on_first: "c \<notin> set a \<Longrightarrow> split_on c (a @ c # r) = a # split_on c r"
  by (induction a) (auto simp: split_on_not_Nil split: list.splits)

lemma header_token_no_space:
  "CHR '' '' \<notin> set a \<Longrightarrow> header_token (Some a) = (if a = [] then Some [] else None)"
  by (simp add: header_token_def index_opt_def split_on_no_sep)

lemma header_token_second:
  assumes "CHR '' '' \<notin> set scheme" and "CHR '' '' \<notin> set token"
  shows "header_token (Some (scheme @ '' '' @ token)) = Some token"
    and "header_token (Some (scheme @ '' '' @ token @ '' '' @ r)) = Some token"
  using assms
  by (simp_all add: header_token_def index_opt_def split_on_first split_on_no_sep)

lemma split_issued:
  assumes "CHR ''.'' \<notin> set h" "CHR ''.'' \<notin> set p" "CHR ''.'' \<notin> set s"
  shows "split_on CHR ''.'' ((h @ ''.'' @ p) @ ''.'' @ s) = [h, p, s]"
  using assms by (simp add: split_on_first split_on_no_sep)

section \<open>The concrete instance, evaluated\<close>

lemma demo_verify_good: "jwt_verify demo_libs ''H.P.S'' JWT_SECRET 1000 = Inr demo_claims"
  by (simp add: jwt_verify_def demo_libs_def demo_claims_def expires_24h_def)

lemma demo_verify_bad: "jwt_verify demo_libs ''H.P.X'' JWT_SECRET 1000 = Inl TokenInvalid"
  by (simp add: jwt_verify_def demo_libs_def JWT_SECRET_def)

lemma demo_claim_set:
  "claim_set (JObjectId 0, ''admin'', Text ''admin'') expires_24h 1000 = demo_claims"
  by (simp add: claim_set_def demo_claims_def)

lemma demo_sign:
  "jwt_sign demo_libs (JObjectId 0, ''admin'', Text ''admin'') JWT_SECRET expires_24h 1000 = ''H.P.S''"
  by (simp add: jwt_sign_def demo_libs_def claim_set_def demo_claims_def)

lemma demo_codec_ok:
  "codec_ok demo_libs JWT_SECRET (claim_set (JObjectId 0, ''admin'', Text ''admin'') expires_24h 1000)"
  by (simp add: codec_ok_def demo_libs_def claim_set_def demo_claims_def)

lemma demo_fields:
  "field (body (demo_creds u p)) ''username'' = JStr u"
  "field (body (demo_creds u p)) ''password'' = JStr p"
  "field (body (demo_creds u p)) ''name'' = JUndefined"
  "field (body (demo_creds u p)) ''role'' = JUndefined"
  "field (body (demo_creds u p)) ''department'' = JUndefined"
  by (simp_all add: demo_creds_def demo_request_def field_def)

lemma seed_empty: "seedDefaultUsers demo_libs empty_world = seeded_world"
  by (simp add: seedDefaultUsers_def seed_block_def findOne_def create_def bcrypt_hash_def
      cast_string_def cast_opt_def next_fault_def consume_def console_def Let_def
      demo_libs_def empty_world_def seeded_world_def seeded_users_def)

lemma seeded_no_fault: "\<not> next_fault seeded_world"
  by (simp add: next_fault_def seeded_world_def)

lemma seeded_users_eq: "users seeded_world = seeded_users"
  by (simp add: seeded_world_def)

section \<open>The auth gate\<close>

lemma jwt_verify_empty: "jwt_verify L [] secret now = Inl TokenInvalid"
  by (simp add: jwt_verify_def)

text \<open>
  C2. A route behind \<open>authenticateToken\<close> is a three-way branch on what the middleware
  reads as the token (\<open>header_token\<close>: the second space-separated segment of the
  \<open>Authorization\<close> header). With no token (no header, or an \<open>undefined\<close> or empty segment)
  the answer is 401 and neither the handler nor the store is touched; with a token that
  \<open>jwt.verify\<close> refuses, for whatever reason, the answer is 403, again without the
  handler; otherwise the handler runs on the request with \<open>req.user\<close> set to the decoded
  claims.
\<close>

theorem auth_gate_three_way:
  "(header_token (authorization req) = None \<or> header_token (authorization req) = Some []
      \<longrightarrow> protected L now handler req w = ((401, Message ''Access token required''), w))
   \<and> (\<forall>token e. header_token (authorization req) = Some token \<and> token \<noteq> []
          \<and> jwt_verify L token JWT_SECRET now = Inl e
      \<longrightarrow> protected L now handler req w = ((403, Message ''Invalid or expired token''), w))
   \<and> (\<forall>token c. header_token (authorization req) = Some token \<and> token \<noteq> []
          \<and> jwt_verify L token JWT_SECRET now = Inr c
      \<longrightarrow> protected L now handler req w = handler (req\<lparr>user := Some c\<rparr>) w)
   \<and> (authorization req = None
      \<longrightarrow> protected L now handler req w = ((401, Message ''Access token required''), w))"
  by (auto simp: protected_def authenticateToken_def header_token_def)

theorem auth_gate_three_way_witness:
  "protected demo_libs 1000 (user_handler demo_libs) (demo_request None []) empty_world
     = ((401, Message ''Access token required''), empty_world)
   \<and> jwt_verify demo_libs ''H.P.X'' JWT_SECRET 1000 = Inl TokenInvalid
   \<and> protected demo_libs 1000 (user_handler demo_libs)
       (demo_request (Some ''Bearer H.P.X'') []) empty_world
     = ((403, Message ''Invalid or expired token''), empty_world)
   \<and> jwt_verify demo_libs ''H.P.S'' JWT_SECRET 1000 = Inr demo_claims
   \<and> protected demo_libs 1000 (user_handler demo_libs)
       (demo_request (Some ''Bearer H.P.S'') []) empty_world
     = user_handler demo_libs
         ((demo_request (Some ''Bearer H.P.S'') [])\<lparr>user := Some demo_claims\<rparr>) empty_world"
proof -
  have t1: "header_token (authorization (demo_request (Some ''Bearer H.P.X'') [])) = Some ''H.P.X''"
    by (simp add: header_token_def index_opt_def demo_request_def)
  have t2: "header_token (authorization (demo_request (Some ''Bearer H.P.S'') [])) = Some ''H.P.S''"
    by (simp add: header_token_def index_opt_def demo_request_def)
  have a: "authorization (demo_request None []) = None"
    by (simp add: demo_request_def)
  show ?thesis
    using auth_gate_three_way [of "demo_request None []" demo_libs 1000
        "user_handler demo_libs" empty_world]
      auth_gate_three_way [of "demo_request (Some ''Bearer H.P.X'') []" demo_libs 1000
        "user_handler demo_libs" empty_world]
      auth_gate_three_way [of "demo_request (Some ''Bearer H.P.S'') []" demo_libs 1000
        "user_handler demo_libs" empty_world]
      demo_verify_bad demo_verify_good t1 t2 a
    by simp
qed

text \<open>
  C10. The middleware never looks at the scheme word. Whatever stands before the first
  space, if the second space-separated segment of the header is a token that verifies,
  the request proceeds with its claims (so \<open>Basic <token>\<close> passes as \<open>Bearer <token>\<close>
  does); and a header with no space in it, which has no second segment (\<open>Bearer\<close> alone,
  or a bare token), is answered with 401, never 403.
\<close>

theorem scheme_not_checked:
  "(CHR '' '' \<notin> set scheme \<and> CHR '' '' \<notin> set token
      \<and> (authorization req = Some (scheme @ '' '' @ token)
           \<or> authorization req = Some (scheme @ '' '' @ token @ '' '' @ r))
      \<and> jwt_verify L token JWT_SECRET now = Inr c
      \<longrightarrow> authenticateToken L now req = Next (req\<lparr>user := Some c\<rparr>))
   \<and> (CHR '' '' \<notin> set a \<and> authorization req = Some a
      \<longrightarrow> authenticateToken L now req = Responded (401, Message ''Access token required''))"
proof (intro conjI impI)
  assume h: "CHR '' '' \<notin> set scheme \<and> CHR '' '' \<notin> set token
      \<and> (authorization req = Some (scheme @ '' '' @ token)
           \<or> authorization req = Some (scheme @ '' '' @ token @ '' '' @ r))
      \<and> jwt_verify L token JWT_SECRET now = Inr c"
  then have tok: "header_token (authorization req) = Some token"
    using header_token_second(1) [of scheme token] header_token_second(2) [of scheme token r]
    by auto
  from h have "token \<noteq> []"
    using jwt_verify_empty [of L JWT_SECRET now] by auto
  with tok h show "authenticateToken L now req = Next (req\<lparr>user := Some c\<rparr>)"
    by (simp add: authenticateToken_def)
next
  assume "CHR '' '' \<notin> set a \<and> authorization req = Some a"
  then show "authenticateToken L now req = Responded (401, Message ''Access token required'')"
    by (simp add: authenticateToken_def header_token_no_space)
qed

theorem scheme_not_checked_witness:
  "jwt_verify demo_libs ''H.P.S'' JWT_SECRET 1000 = Inr demo_claims
   \<and> authenticateToken demo_libs 1000 (demo_request (Some ''Basic H.P.S'') [])
       = Next ((demo_request (Some ''Basic H.P.S'') [])\<lparr>user := Some demo_claims\<rparr>)
   \<and> authenticateToken demo_libs 1000 (demo_request (Some ''Bearer'') [])
       = Responded (401, Message ''Access token required'')
   \<and> authenticateToken demo_libs 1000 (demo_request (Some ''H.P.S'') [])
       = Responded (401, Message ''Access token required'')"
  using demo_verify_good
    scheme_not_checked [of "''Basic''" "''H.P.S''" "demo_request (Some ''Basic H.P.S'') []" "[]"
      demo_libs 1000 demo_claims "''Bearer''"]
    scheme_not_checked [of "''Basic''" "''H.P.S''" "demo_request (Some ''Bearer'') []" "[]"
      demo_libs 1000 demo_claims "''Bearer''"]
    scheme_not_checked [of "''Basic''" "''H.P.S''" "demo_request (Some ''H.P.S'') []" "[]"
      demo_libs 1000 demo_claims "''H.P.S''"]
  by (simp add: demo_request_def)

section \<open>The standard codec\<close>

lemma b64_alphabet_length: "length b64_alphabet = 64"
  by (simp add: b64_alphabet_def)

lemma sextets_of:
  fixes n :: nat
  shows "((n div 262144 * 64 + n div 4096 mod 64) * 64 + n div 64 mod 64) * 64 + n mod 64 = n"
proof -
  have a: "n div 4096 = n div 64 div 64" and b: "n div 262144 = n div 64 div 64 div 64"
    by (simp_all add: div_mult2_eq)
  show ?thesis
    unfolding a b by (simp only: div_mult_mod_eq)
qed

lemma shift_byte:
  fixes m c :: nat
  assumes "c < 256"
  shows "(m * 256 + c) div 256 = m" and "(m * 256 + c) mod 256 = c"
  using assms by simp_all

lemma group3:
  fixes a b c :: nat
  assumes "a < 256" "b < 256" "c < 256"
  shows "((a * 256 + b) * 256 + c) div 262144 < 64"
    and "((a * 256 + b) * 256 + c) div 65536 = a"
    and "((a * 256 + b) * 256 + c) div 256 mod 256 = b"
    and "((a * 256 + b) * 256 + c) mod 256 = c"
proof -
  show "((a * 256 + b) * 256 + c) div 262144 < 64"
    and "((a * 256 + b) * 256 + c) div 65536 = a"
    using assms by simp_all
  show "((a * 256 + b) * 256 + c) div 256 mod 256 = b"
    by (simp only: shift_byte [OF assms(3)] shift_byte [OF assms(2)])
  show "((a * 256 + b) * 256 + c) mod 256 = c"
    by (simp only: shift_byte [OF assms(3)])
qed

lemma group2:
  fixes a b :: nat
  assumes "a < 256" "b < 256"
  shows "((a * 256 + b) * 4) div 4096 < 64"
    and "(((a * 256 + b) * 4) div 4096 * 64 + ((a * 256 + b) * 4) div 64 mod 64) * 64
           + ((a * 256 + b) * 4) mod 64 = (a * 256 + b) * 4"
    and "((a * 256 + b) * 4) div 1024 = a"
    and "((a * 256 + b) * 4) div 4 mod 256 = b"
proof -
  show "((a * 256 + b) * 4) div 4096 < 64" and "((a * 256 + b) * 4) div 1024 = a"
    using assms by simp_all
  have "((a * 256 + b) * 4) div 4 = a * 256 + b"
    by simp
  then show "((a * 256 + b) * 4) div 4 mod 256 = b"
    by (simp only: shift_byte [OF assms(2)])
  have "((a * 256 + b) * 4) div 4096 = ((a * 256 + b) * 4) div 64 div 64"
    by (simp add: div_mult2_eq)
  then show "(((a * 256 + b) * 4) div 4096 * 64 + ((a * 256 + b) * 4) div 64 mod 64) * 64
           + ((a * 256 + b) * 4) mod 64 = (a * 256 + b) * 4"
    by (simp only: div_mult_mod_eq)
qed

lemma group1:
  fixes a :: nat
  assumes "a < 256"
  shows "(a * 16) div 64 < 64"
    and "((a * 16) div 64 * 64 + (a * 16) mod 64) div 16 = a"
proof -
  show "(a * 16) div 64 < 64"
    using assms by simp
  have "(a * 16) div 64 * 64 + (a * 16) mod 64 = a * 16"
    by (simp only: div_mult_mod_eq)
  then show "((a * 16) div 64 * 64 + (a * 16) mod 64) div 16 = a"
    by simp
qed

lemma index_of_nth: "distinct xs \<Longrightarrow> n < length xs \<Longrightarrow> index_of xs (xs ! n) = Some n"
proof (induction xs arbitrary: n)
  case Nil
  then show ?case by simp
next
  case (Cons y ys)
  then show ?case by (cases n) auto
qed

lemma b64_alphabet_distinct: "distinct b64_alphabet"
  by (simp add: b64_alphabet_def)

lemma b64_val_char: "n < 64 \<Longrightarrow> b64_val (b64_char n) = Some n"
  by (simp add: b64_val_def b64_char_def index_of_nth b64_alphabet_distinct b64_alphabet_length)

lemma b64_char_in: "n < 64 \<Longrightarrow> b64_char n \<in> set b64_alphabet"
  by (simp add: b64_char_def b64_alphabet_length)

lemma mod64: "(n::nat) mod 64 < 64" "n div 64 mod 64 < 64" "n div 4096 mod 64 < 64"
  by simp_all

lemma base64url_3:
  "base64url (a # b # c # rest) =
     b64_char (((of_char a * 256 + of_char b) * 256 + of_char c) div 262144)
     # b64_char (((of_char a * 256 + of_char b) * 256 + of_char c) div 4096 mod 64)
     # b64_char (((of_char a * 256 + of_char b) * 256 + of_char c) div 64 mod 64)
     # b64_char (((of_char a * 256 + of_char b) * 256 + of_char c) mod 64) # base64url rest"
  by (simp only: base64url.simps Let_def)

lemma base64url_2:
  "base64url [a, b] =
     [b64_char (((of_char a * 256 + of_char b) * 4) div 4096),
      b64_char (((of_char a * 256 + of_char b) * 4) div 64 mod 64),
      b64_char (((of_char a * 256 + of_char b) * 4) mod 64)]"
  by (simp only: base64url.simps Let_def)

lemma base64url_1:
  "base64url [a] = [b64_char ((of_char a * 16) div 64), b64_char ((of_char a * 16) mod 64)]"
  by (simp only: base64url.simps Let_def)

lemma unbase64url_base64url: "unbase64url (base64url s) = Some s"
proof (induction s rule: base64url.induct)
  case (1 a b c rest)
  define n :: nat where "n = (of_char a * 256 + of_char b) * 256 + of_char c"
  have g: "n div 262144 < 64" "n div 65536 = of_char a" "n div 256 mod 256 = of_char b"
      "n mod 256 = of_char c"
    unfolding n_def
    by (rule group3 [OF nat_of_char_less_256 nat_of_char_less_256 nat_of_char_less_256])+
  have enc: "base64url (a # b # c # rest) =
      b64_char (n div 262144) # b64_char (n div 4096 mod 64) # b64_char (n div 64 mod 64)
      # b64_char (n mod 64) # base64url rest"
    unfolding n_def by (rule base64url_3)
  show ?case
    unfolding enc
    by (simp only: unbase64url.simps b64_val_char g mod64 "1.IH" sextets_of Let_def
        option.case prod.case char_of_char)
next
  case (2 a b)
  define n :: nat where "n = (of_char a * 256 + of_char b) * 4"
  have g: "n div 4096 < 64" "(n div 4096 * 64 + n div 64 mod 64) * 64 + n mod 64 = n"
      "n div 1024 = of_char a" "n div 4 mod 256 = of_char b"
    unfolding n_def by (rule group2 [OF nat_of_char_less_256 nat_of_char_less_256])+
  have enc: "base64url [a, b] =
      [b64_char (n div 4096), b64_char (n div 64 mod 64), b64_char (n mod 64)]"
    unfolding n_def by (rule base64url_2)
  show ?case
    unfolding enc
    by (simp only: unbase64url.simps b64_val_char g mod64 Let_def option.case prod.case
        char_of_char)
next
  case (3 a)
  define n :: nat where "n = of_char a * 16"
  have g: "n div 64 < 64" "(n div 64 * 64 + n mod 64) div 16 = of_char a"
    unfolding n_def by (rule group1 [OF nat_of_char_less_256])+
  have enc: "base64url [a] = [b64_char (n div 64), b64_char (n mod 64)]"
    unfolding n_def by (rule base64url_1)
  show ?case
    unfolding enc
    by (simp only: unbase64url.simps b64_val_char g mod64 Let_def option.case prod.case
        char_of_char)
next
  case 4
  show ?case by simp
qed

lemma base64url_alphabet: "set (base64url s) \<subseteq> set b64_alphabet"
proof (induction s rule: base64url.induct)
  case (1 a b c rest)
  define n :: nat where "n = (of_char a * 256 + of_char b) * 256 + of_char c"
  have g: "n div 262144 < 64"
    unfolding n_def
    by (rule group3 [OF nat_of_char_less_256 nat_of_char_less_256 nat_of_char_less_256])
  have enc: "base64url (a # b # c # rest) =
      b64_char (n div 262144) # b64_char (n div 4096 mod 64) # b64_char (n div 64 mod 64)
      # b64_char (n mod 64) # base64url rest"
    unfolding n_def by (rule base64url_3)
  from 1 show ?case
    unfolding enc by (simp add: b64_char_in g)
next
  case (2 a b)
  define n :: nat where "n = (of_char a * 256 + of_char b) * 4"
  have g: "n div 4096 < 64"
    unfolding n_def by (rule group2 [OF nat_of_char_less_256 nat_of_char_less_256])
  have enc: "base64url [a, b] =
      [b64_char (n div 4096), b64_char (n div 64 mod 64), b64_char (n mod 64)]"
    unfolding n_def by (rule base64url_2)
  show ?case
    unfolding enc by (simp add: b64_char_in g)
next
  case (3 a)
  define n :: nat where "n = of_char a * 16"
  have g: "n div 64 < 64"
    unfolding n_def by (rule group1 [OF nat_of_char_less_256])
  have enc: "base64url [a] = [b64_char (n div 64), b64_char (n mod 64)]"
    unfolding n_def by (rule base64url_1)
  show ?case
    unfolding enc by (simp add: b64_char_in g)
next
  case 4
  show ?case by simp
qed

lemma base64url_no_sep:
  "CHR ''.'' \<notin> set (base64url s)" "CHR '','' \<notin> set (base64url s)"
proof -
  have "CHR ''.'' \<notin> set b64_alphabet" "CHR '','' \<notin> set b64_alphabet"
    by (simp_all add: b64_alphabet_def)
  then show "CHR ''.'' \<notin> set (base64url s)" "CHR '','' \<notin> set (base64url s)"
    using base64url_alphabet [of s] by blast+
qed

text \<open>The header segment every HS256 token starts with.\<close>

lemma header_known: \<open>base64url ''{"alg":"HS256","typ":"JWT"}'' = ''eyJhbGciOiJIUzI1NiIsInR5cCI6IkpXVCJ9''\<close>
  by (simp add: b64_char_def b64_alphabet_def Let_def)

lemma bytes_nat_bytes: "bytes_nat (nat_bytes n) = n"
proof (induction n rule: nat_bytes.induct)
  case (1 n)
  show ?case
  proof (cases "n < 256")
    case True
    then show ?thesis by (simp add: nat_bytes.simps [of n])
  next
    case False
    with 1 show ?thesis by (simp add: nat_bytes.simps [of n])
  qed
qed

lemma value_text_no_sep: "CHR '','' \<notin> set (value_text v)"
  by (cases v) (simp_all add: base64url_no_sep)

lemma parse_value_text: "parse_value (value_text v) = Some (token_value v)"
  by (cases v) (simp_all add: token_value_def unbase64url_base64url bytes_nat_bytes)

lemma value_field_value: "value_field (token_value (field_value r)) = Some r"
  by (cases r) (simp_all add: token_value_def)

lemma split_claims_text:
  "split_on CHR '','' (claims_text c) =
     [value_text (claim_id c), base64url (claim_username c),
      value_text (field_value (claim_role c)), base64url (nat_bytes (iat c)),
      base64url (nat_bytes (exp c))]"
  by (simp add: claims_text_def split_on_first split_on_no_sep value_text_no_sep base64url_no_sep)

lemma parse_claims_text:
  "parse_claims (claims_text c) = Some (c\<lparr>claim_id := token_value (claim_id c)\<rparr>)"
  by (cases c)
    (simp add: parse_claims_def split_claims_text parse_value_text value_field_value
      unbase64url_base64url bytes_nat_bytes)

lemma std_decode_encode:
  "std_decode (std_encode c) = Some (c\<lparr>claim_id := token_value (claim_id c)\<rparr>)"
  by (simp add: std_decode_def std_encode_def unbase64url_base64url parse_claims_text)

lemma objectid_hex_0: "objectid_hex 0 = ''000000000000000000000000''"
  by code_simp

lemma token_value_cases:
  "\<not> is_object_id v \<Longrightarrow> token_value v = v"
  "token_value (JObjectId n) = JStr (objectid_hex n)"
  by (cases v) (simp_all add: token_value_def is_object_id_def)

section \<open>Tokens\<close>

lemma verify_issued:
  assumes "codec_ok L secret (claim_set payload v t0)"
  shows "jwt_verify L (jwt_sign L payload secret v t0) secret now
         = (if t0 + v \<le> now then Inl TokenExpired else Inr (claim_set payload v t0))"
proof -
  let ?c = "claim_set payload v t0"
  let ?h = "jwt_header L" and ?p = "jwt_encode L ?c"
  let ?s = "jwt_hmac L secret (?h @ ''.'' @ ?p)"
  have tok: "jwt_sign L payload secret v t0 = (?h @ ''.'' @ ?p) @ ''.'' @ ?s"
    by (simp add: jwt_sign_def Let_def)
  have seg: "split_on CHR ''.'' ((?h @ ''.'' @ ?p) @ ''.'' @ ?s) = [?h, ?p, ?s]"
    using assms by (intro split_issued) (simp_all add: codec_ok_def)
  have dec: "jwt_decode L ?p = Some ?c"
    using assms by (simp add: codec_ok_def)
  have e: "exp ?c = t0 + v"
    by (simp add: claim_set_def split: prod.splits)
  show ?thesis
    unfolding jwt_verify_def tok seg using dec e by simp
qed

lemma verify_issued_as:
  assumes "jwt_decode L (jwt_encode L (claim_set payload v t0)) = Some c"
    and "CHR ''.'' \<notin> set (jwt_header L)"
    and "CHR ''.'' \<notin> set (jwt_encode L (claim_set payload v t0))"
    and "CHR ''.'' \<notin> set (jwt_hmac L secret
           (jwt_header L @ ''.'' @ jwt_encode L (claim_set payload v t0)))"
  shows "jwt_verify L (jwt_sign L payload secret v t0) secret now
         = (if exp c \<le> now then Inl TokenExpired else Inr c)"
proof -
  let ?h = "jwt_header L" and ?p = "jwt_encode L (claim_set payload v t0)"
  let ?s = "jwt_hmac L secret (?h @ ''.'' @ ?p)"
  have tok: "jwt_sign L payload secret v t0 = (?h @ ''.'' @ ?p) @ ''.'' @ ?s"
    by (simp add: jwt_sign_def Let_def)
  have seg: "split_on CHR ''.'' ((?h @ ''.'' @ ?p) @ ''.'' @ ?s) = [?h, ?p, ?s]"
    using assms(2-4) by (rule split_issued)
  show ?thesis
    unfolding jwt_verify_def tok seg using assms(1) by simp
qed

lemma standard_libs_fields:
  "jwt_header (standard_libs mac L) = base64url header_text"
  "jwt_encode (standard_libs mac L) = std_encode"
  "jwt_decode (standard_libs mac L) = std_decode"
  "jwt_hmac (standard_libs mac L) k m = base64url (mac k m)"
  by (simp_all add: standard_libs_def)

lemma verify_issued_standard:
  "jwt_verify (standard_libs mac L) (jwt_sign (standard_libs mac L) (i, u, r) secret v t0)
     secret now
   = (if t0 + v \<le> now then Inl TokenExpired else Inr (claim_set (token_value i, u, r) v t0))"
proof -
  let ?S = "standard_libs mac L"
  have c: "(claim_set (i, u, r) v t0)\<lparr>claim_id := token_value (claim_id (claim_set (i, u, r) v t0))\<rparr>
            = claim_set (token_value i, u, r) v t0"
    by (simp add: claim_set_def)
  have d: "jwt_decode ?S (jwt_encode ?S (claim_set (i, u, r) v t0))
            = Some (claim_set (token_value i, u, r) v t0)"
    by (simp only: standard_libs_fields std_decode_encode c)
  have e: "exp (claim_set (token_value i, u, r) v t0) = t0 + v"
    by (simp add: claim_set_def)
  have "jwt_verify ?S (jwt_sign ?S (i, u, r) secret v t0) secret now
         = (if exp (claim_set (token_value i, u, r) v t0) \<le> now then Inl TokenExpired
            else Inr (claim_set (token_value i, u, r) v t0))"
    by (rule verify_issued_as [OF d])
       (simp_all add: standard_libs_fields std_encode_def base64url_no_sep)
  then show ?thesis
    by (simp only: e)
qed



text \<open>
  C3, as it holds. For every subject id, username and role, every secret and every MAC:
  the token issued from them with the 24-hour validity, verified with the same secret at
  the moment of issuance, is accepted, and the claims it yields carry that username and
  that role, and as id the value the token carries for the input id: the input itself
  when it is not a store \<open>ObjectId\<close> (the numeric ids of the static variant), and the hex
  string of the \<open>ObjectId\<close> when it is one (the \<open>_id\<close> the database variant passes).
\<close>

theorem issued_token_verifies:
  "\<exists>c. jwt_verify (standard_libs mac L)
          (jwt_sign (standard_libs mac L) (i, u, r) secret expires_24h now) secret now = Inr c
       \<and> claim_username c = u \<and> claim_role c = r \<and> claim_id c = token_value i
       \<and> (\<not> is_object_id i \<longrightarrow> claim_id c = i)
       \<and> (\<forall>n. i = JObjectId n \<longrightarrow> claim_id c = JStr (objectid_hex n))"
proof -
  let ?c = "claim_set (token_value i, u, r) expires_24h now"
  have v: "jwt_verify (standard_libs mac L)
          (jwt_sign (standard_libs mac L) (i, u, r) secret expires_24h now) secret now = Inr ?c"
    by (simp add: verify_issued_standard expires_24h_def)
  have f: "claim_username ?c = u" "claim_role ?c = r" "claim_id ?c = token_value i"
    by (simp_all add: claim_set_def)
  have a: "\<not> is_object_id i \<longrightarrow> token_value i = i"
    using token_value_cases(1) [of i] by blast
  have b: "\<forall>n. i = JObjectId n \<longrightarrow> token_value i = JStr (objectid_hex n)"
    using token_value_cases(2) by blast
  from v f a b show ?thesis
    by (intro exI [of _ ?c] conjI) (simp_all only:)
qed

theorem issued_token_verifies_witness:
  "\<not> is_object_id (JNum 1)
   \<and> (\<exists>c. jwt_verify (standard_libs demo_mac demo_libs)
          (jwt_sign (standard_libs demo_mac demo_libs) (JNum 1, ''admin'', Text ''admin'')
             JWT_SECRET expires_24h 1000) JWT_SECRET 1000 = Inr c
        \<and> claim_id c = JNum 1 \<and> claim_username c = ''admin'' \<and> claim_role c = Text ''admin'')"
proof -
  have n: "\<not> is_object_id (JNum 1)"
    by (simp add: is_object_id_def)
  from issued_token_verifies [of demo_mac demo_libs "JNum 1" "''admin''" "Text ''admin''"
      JWT_SECRET 1000]
  obtain c where c: "jwt_verify (standard_libs demo_mac demo_libs)
          (jwt_sign (standard_libs demo_mac demo_libs) (JNum 1, ''admin'', Text ''admin'')
             JWT_SECRET expires_24h 1000) JWT_SECRET 1000 = Inr c"
      "claim_username c = ''admin''" "claim_role c = Text ''admin''"
      "\<not> is_object_id (JNum 1) \<longrightarrow> claim_id c = JNum 1"
    by (elim exE conjE)
  from c(4) n have "claim_id c = JNum 1" by (rule mp)
  with c(1-3) n show ?thesis
    by (intro conjI exI [of _ c])
qed

text \<open>C3 as stated fails for the id of the database variant: issued from the \<open>ObjectId\<close>
  0, the verified claims carry the string of 24 zeros, which is not that \<open>ObjectId\<close>.\<close>

theorem objectid_roundtrip_counterexample:
  "jwt_verify (standard_libs demo_mac demo_libs)
     (jwt_sign (standard_libs demo_mac demo_libs) (JObjectId 0, ''admin'', Text ''admin'')
        JWT_SECRET expires_24h 1000) JWT_SECRET 1000
     = Inr (claim_set (JStr ''000000000000000000000000'', ''admin'', Text ''admin'')
              expires_24h 1000)
   \<and> claim_id (claim_set (JStr ''000000000000000000000000'', ''admin'', Text ''admin'')
                 expires_24h 1000) \<noteq> JObjectId 0"
proof -
  have t: "token_value (JObjectId 0) = JStr ''000000000000000000000000''"
    by (simp only: token_value_cases(2) objectid_hex_0)
  have v: "jwt_verify (standard_libs demo_mac demo_libs)
     (jwt_sign (standard_libs demo_mac demo_libs) (JObjectId 0, ''admin'', Text ''admin'')
        JWT_SECRET expires_24h 1000) JWT_SECRET 1000
     = Inr (claim_set (token_value (JObjectId 0), ''admin'', Text ''admin'') expires_24h 1000)"
    by (simp add: verify_issued_standard expires_24h_def)
  have n: "claim_id (claim_set (JStr ''000000000000000000000000'', ''admin'', Text ''admin'')
                 expires_24h 1000) \<noteq> JObjectId 0"
    by (simp add: claim_set_def)
  from v n show ?thesis
    unfolding t by (rule conjI)
qed

text \<open>
  C4. An issued token expires exactly 24 hours (86400 seconds) after issuance: verified
  with the same secret it is accepted at every time before that, and refused as expired
  at that time and at every later one. A token of three segments whose signature is not
  the one the secret gives, or whose payload does not decode, and a token that does not
  have three segments, are refused as invalid, whatever the time.
\<close>

theorem token_validity_24h:
  assumes "codec_ok L secret (claim_set payload expires_24h t0)"
  shows "exp (claim_set payload expires_24h t0) = t0 + 24 * 60 * 60
    \<and> (now < t0 + 24 * 60 * 60 \<longrightarrow>
         jwt_verify L (jwt_sign L payload secret expires_24h t0) secret now
           = Inr (claim_set payload expires_24h t0))
    \<and> (t0 + 24 * 60 * 60 \<le> now \<longrightarrow>
         jwt_verify L (jwt_sign L payload secret expires_24h t0) secret now = Inl TokenExpired)
    \<and> (\<forall>h p s. split_on CHR ''.'' token = [h, p, s] \<and> s \<noteq> jwt_hmac L secret (h @ ''.'' @ p)
          \<longrightarrow> jwt_verify L token secret now = Inl TokenInvalid)
    \<and> (\<forall>h p s. split_on CHR ''.'' token = [h, p, s] \<and> jwt_decode L p = None
          \<longrightarrow> jwt_verify L token secret now = Inl TokenInvalid)
    \<and> (length (split_on CHR ''.'' token) \<noteq> 3
          \<longrightarrow> jwt_verify L token secret now = Inl TokenInvalid)"
proof (intro conjI impI allI)
  show "exp (claim_set payload expires_24h t0) = t0 + 24 * 60 * 60"
    by (simp add: claim_set_def expires_24h_def split: prod.splits)
next
  assume "now < t0 + 24 * 60 * 60"
  then show "jwt_verify L (jwt_sign L payload secret expires_24h t0) secret now
           = Inr (claim_set payload expires_24h t0)"
    using verify_issued [OF assms, of now] by (simp add: expires_24h_def)
next
  assume "t0 + 24 * 60 * 60 \<le> now"
  then show "jwt_verify L (jwt_sign L payload secret expires_24h t0) secret now = Inl TokenExpired"
    using verify_issued [OF assms, of now] by (simp add: expires_24h_def)
next
  fix h p s
  assume "split_on CHR ''.'' token = [h, p, s] \<and> s \<noteq> jwt_hmac L secret (h @ ''.'' @ p)"
  then show "jwt_verify L token secret now = Inl TokenInvalid"
    by (simp add: jwt_verify_def split: option.splits)
next
  fix h p s
  assume "split_on CHR ''.'' token = [h, p, s] \<and> jwt_decode L p = None"
  then show "jwt_verify L token secret now = Inl TokenInvalid"
    by (simp add: jwt_verify_def)
next
  assume "length (split_on CHR ''.'' token) \<noteq> 3"
  then show "jwt_verify L token secret now = Inl TokenInvalid"
    by (auto simp: jwt_verify_def split: list.splits)
qed

theorem token_validity_24h_witness:
  "codec_ok demo_libs JWT_SECRET (claim_set (JObjectId 0, ''admin'', Text ''admin'') expires_24h 1000)
   \<and> exp demo_claims = 1000 + 24 * 60 * 60
   \<and> jwt_verify demo_libs ''H.P.S'' JWT_SECRET 87399 = Inr demo_claims
   \<and> jwt_verify demo_libs ''H.P.S'' JWT_SECRET 87400 = Inl TokenExpired
   \<and> jwt_verify demo_libs ''H.P.X'' JWT_SECRET 1000 = Inl TokenInvalid
   \<and> jwt_verify demo_libs ''H.Q.S'' JWT_SECRET 1000 = Inl TokenInvalid
   \<and> jwt_verify demo_libs ''H.P'' JWT_SECRET 1000 = Inl TokenInvalid"
proof -
  note v = token_validity_24h [OF demo_codec_ok, unfolded demo_sign demo_claim_set]
  have e: "exp demo_claims = 1000 + 24 * 60 * 60"
    using v by blast
  have live: "jwt_verify demo_libs ''H.P.S'' JWT_SECRET 87399 = Inr demo_claims"
    using v [of 87399] by simp
  have dead: "jwt_verify demo_libs ''H.P.S'' JWT_SECRET 87400 = Inl TokenExpired"
    using v [of 87400] by simp
  have "split_on CHR ''.'' ''H.P.X'' = [''H'', ''P'', ''X'']"
    and "''X'' \<noteq> jwt_hmac demo_libs JWT_SECRET (''H'' @ ''.'' @ ''P'')"
    by (simp_all add: demo_libs_def)
  then have forged: "jwt_verify demo_libs ''H.P.X'' JWT_SECRET 1000 = Inl TokenInvalid"
    using v [of 1000 "''H.P.X''"] by blast
  have "split_on CHR ''.'' ''H.Q.S'' = [''H'', ''Q'', ''S'']"
    and "jwt_decode demo_libs ''Q'' = None"
    by (simp_all add: demo_libs_def)
  then have undecodable: "jwt_verify demo_libs ''H.Q.S'' JWT_SECRET 1000 = Inl TokenInvalid"
    using v [of 1000 "''H.Q.S''"] by blast
  have "length (split_on CHR ''.'' ''H.P'') \<noteq> 3"
    by simp
  then have short: "jwt_verify demo_libs ''H.P'' JWT_SECRET 1000 = Inl TokenInvalid"
    using v [of 1000 "''H.P''"] by blast
  show ?thesis
    using demo_codec_ok e live dead forged undecodable short by simp
qed

section \<open>Registration\<close>

lemma cast_opt_text: "text_or_missing v \<Longrightarrow> \<exists>n. cast_opt L v = Inr n"
  by (cases v) (simp_all add: text_or_missing_def cast_opt_def cast_string_def)

lemma register_400:
  "\<not> truthy (field (body req) ''username'') \<or> \<not> truthy (field (body req) ''password'')
   \<Longrightarrow> register L req w = ((400, Message ''Username and password required''), w)"
  by (auto simp: register_def Let_def)

lemma create_duplicate:
  assumes "cast_string L un = Inr s" and "s \<in> set (map username (users w))"
    and "cast_opt L nm = Inr n" "cast_opt L rl = Inr r" "cast_opt L dp = Inr d"
    and "\<not> next_fault w"
  shows "create L un h nm rl dp w = (Inl DuplicateKey, consume w)"
  using assms by (simp add: create_def)

lemma create_fresh:
  assumes "cast_string L un = Inr s"
    and "cast_opt L nm = Inr n" "cast_opt L rl = Inr r" "cast_opt L dp = Inr d"
    and "\<not> next_fault w" and "s \<notin> set (map username (users w))"
  shows "create L un h nm rl dp w =
           (Inr \<lparr>uid = JObjectId (next_id w), username = s, password = h,
                  name = n, role = r, department = d\<rparr>,
            (consume w)\<lparr>users := users w @ [\<lparr>uid = JObjectId (next_id w), username = s,
                          password = h, name = n, role = r, department = d\<rparr>],
                        next_id := Suc (next_id w)\<rparr>)"
  using assms by (simp add: create_def Let_def)

lemma create_error_keeps:
  "create L un h nm rl dp w = (Inl e, w') \<Longrightarrow>
     users w' = users w \<and> logs w' = logs w \<and> hashed w' = hashed w \<and> next_id w' = next_id w"
  unfolding create_def
  by (cases "cast_string L un"; cases "cast_opt L nm"; cases "cast_opt L rl";
      cases "cast_opt L dp")
     (auto simp: consume_def Let_def split: if_splits)

lemma create_taken:
  assumes "cast_string L un = Inr s" and "s \<in> set (map username (users w))"
  shows "\<exists>e. fst (create L un h nm rl dp w) = Inl e"
  unfolding create_def using assms
  by (cases "cast_opt L nm"; cases "cast_opt L rl"; cases "cast_opt L dp") simp_all

lemma register_past_validation:
  assumes "truthy (field (body req) ''username'')" and "truthy (field (body req) ''password'')"
  shows "register L req w =
    (case bcrypt_hash_fn L (field (body req) ''password'') of
       Inl e \<Rightarrow> internal_error ''Register error:'' e
                 (w\<lparr>hashed := hashed w @ [field (body req) ''password'']\<rparr>)
     | Inr h \<Rightarrow>
         (case create L (field (body req) ''username'') h (field (body req) ''name'')
                 (field (body req) ''role'') (field (body req) ''department'')
                 (w\<lparr>hashed := hashed w @ [field (body req) ''password'']\<rparr>) of
            (Inl e, w2) \<Rightarrow> internal_error ''Register error:'' e w2
          | (Inr doc, w2) \<Rightarrow> ((201, Message ''User registered successfully''), w2)))"
  using assms by (simp add: register_def bcrypt_hash_def Let_def split: sum.splits)

text \<open>
  C8, as the code has it. \<open>POST /api/register\<close> validates \<open>username\<close> and \<open>password\<close>
  only: a body in which either is missing or falsy (the empty string, \<open>null\<close>, 0,
  \<open>false\<close>) is answered 400 and nothing is hashed or stored. \<open>name\<close>, \<open>role\<close> and
  \<open>department\<close> are not required: with a non-empty string username that no stored user
  has, a password that \<open>bcrypt\<close> hashes, each of the three other fields a string or missing,
  and no store failure, the answer is 201 with the message, and the user is stored under
  the hashed password.
\<close>

theorem register_validation:
  "(\<not> truthy (field (body req) ''username'') \<or> \<not> truthy (field (body req) ''password'')
      \<longrightarrow> register L req w = ((400, Message ''Username and password required''), w))
   \<and> (field (body req) ''username'' = JStr s \<and> s \<noteq> []
        \<and> truthy (field (body req) ''password'')
        \<and> bcrypt_hash_fn L (field (body req) ''password'') = Inr h
        \<and> text_or_missing (field (body req) ''name'')
        \<and> text_or_missing (field (body req) ''role'')
        \<and> text_or_missing (field (body req) ''department'')
        \<and> \<not> next_fault w \<and> s \<notin> set (map username (users w))
      \<longrightarrow> fst (register L req w) = (201, Message ''User registered successfully'')
          \<and> (\<exists>doc. users (snd (register L req w)) = users w @ [doc]
                \<and> username doc = s \<and> password doc = h))"
proof (rule conjI; rule impI)
  assume "\<not> truthy (field (body req) ''username'') \<or> \<not> truthy (field (body req) ''password'')"
  then show "register L req w = ((400, Message ''Username and password required''), w)"
    by (rule register_400)
next
  assume a: "field (body req) ''username'' = JStr s \<and> s \<noteq> []
        \<and> truthy (field (body req) ''password'')
        \<and> bcrypt_hash_fn L (field (body req) ''password'') = Inr h
        \<and> text_or_missing (field (body req) ''name'')
        \<and> text_or_missing (field (body req) ''role'')
        \<and> text_or_missing (field (body req) ''department'')
        \<and> \<not> next_fault w \<and> s \<notin> set (map username (users w))"
  let ?w1 = "w\<lparr>hashed := hashed w @ [field (body req) ''password'']\<rparr>"
  obtain n r d where casts: "cast_opt L (field (body req) ''name'') = Inr n"
      "cast_opt L (field (body req) ''role'') = Inr r"
      "cast_opt L (field (body req) ''department'') = Inr d"
    using a cast_opt_text by blast
  have un: "cast_string L (JStr s) = Inr s"
    by (simp add: cast_string_def)
  have w1: "\<not> next_fault ?w1" "s \<notin> set (map username (users ?w1))"
    using a by (simp_all add: next_fault_def)
  have t: "truthy (field (body req) ''username'')" "truthy (field (body req) ''password'')"
    using a by simp_all
  show "fst (register L req w) = (201, Message ''User registered successfully'')
          \<and> (\<exists>doc. users (snd (register L req w)) = users w @ [doc]
                \<and> username doc = s \<and> password doc = h)"
    using a by (simp add: register_past_validation [OF t] create_fresh [OF un casts w1] consume_def)
qed

theorem register_validation_witness:
  "register demo_libs (demo_request None [(''name'', JStr ''Bob'')]) empty_world
     = ((400, Message ''Username and password required''), empty_world)
   \<and> register demo_libs (demo_creds [] ''pw'') empty_world
     = ((400, Message ''Username and password required''), empty_world)
   \<and> fst (register demo_libs (demo_creds ''bob'' ''pw'') empty_world)
     = (201, Message ''User registered successfully'')"
proof -
  have m: "\<not> truthy (field (body (demo_request None [(''name'', JStr ''Bob'')])) ''username'')"
    by (simp add: demo_request_def field_def)
  have e: "\<not> truthy (field (body (demo_creds [] ''pw'')) ''username'')"
    by (simp add: demo_fields)
  have h: "bcrypt_hash_fn demo_libs (JStr ''pw'') = Inr ''$wp''"
    by (simp add: demo_libs_def)
  have f: "\<not> next_fault empty_world" "''bob'' \<notin> set (map username (users empty_world))"
    by (simp_all add: next_fault_def empty_world_def)
  have 1: "register demo_libs (demo_request None [(''name'', JStr ''Bob'')]) empty_world
     = ((400, Message ''Username and password required''), empty_world)"
    using register_validation [of "demo_request None [(''name'', JStr ''Bob'')]" demo_libs empty_world]
      m by blast
  have 2: "register demo_libs (demo_creds [] ''pw'') empty_world
     = ((400, Message ''Username and password required''), empty_world)"
    using register_validation [of "demo_creds [] ''pw''" demo_libs empty_world] e by blast
  have 3: "fst (register demo_libs (demo_creds ''bob'' ''pw'') empty_world)
     = (201, Message ''User registered successfully'')"
    using register_validation [of "demo_creds ''bob'' ''pw''" demo_libs empty_world "''bob''" "''$wp''"]
      h f
    by (simp add: demo_fields text_or_missing_def)
  from 1 2 3 show ?thesis by simp
qed

text \<open>C8 as stated fails: a body with only \<open>username\<close> and \<open>password\<close>, so missing
  \<open>name\<close>, \<open>role\<close> and \<open>department\<close>, is answered 201, not 400.\<close>

theorem register_missing_fields_counterexample:
  "field (body (demo_creds ''bob'' ''pw'')) ''name'' = JUndefined
   \<and> field (body (demo_creds ''bob'' ''pw'')) ''role'' = JUndefined
   \<and> field (body (demo_creds ''bob'' ''pw'')) ''department'' = JUndefined
   \<and> fst (register demo_libs (demo_creds ''bob'' ''pw'') empty_world)
       = (201, Message ''User registered successfully'')"
  by (simp add: demo_fields register_def bcrypt_hash_def create_def cast_string_def cast_opt_def
      next_fault_def consume_def Let_def demo_libs_def empty_world_def)

text \<open>
  C9. Registering a username that a stored user already has is answered 500 with the
  generic message (there is no 409), and the collection is left as it was. When nothing
  else fails first (the hash, a cast, the store call itself), the error the handler
  catches and logs is the store's \<open>DuplicateKey\<close>.
\<close>

theorem register_duplicate:
  assumes "truthy (field (body req) ''username'')" and "truthy (field (body req) ''password'')"
    and "cast_string L (field (body req) ''username'') = Inr s"
    and "s \<in> set (map username (users w))"
  shows "fst (register L req w) = (500, Message ''Internal server error'')
    \<and> users (snd (register L req w)) = users w
    \<and> (bcrypt_hash_fn L (field (body req) ''password'') = Inr h
         \<and> cast_opt L (field (body req) ''name'') = Inr n
         \<and> cast_opt L (field (body req) ''role'') = Inr r
         \<and> cast_opt L (field (body req) ''department'') = Inr d
         \<and> \<not> next_fault w
         \<longrightarrow> logs (snd (register L req w)) = logs w @ [Failure ''Register error:'' DuplicateKey])"
proof -
  let ?pw = "field (body req) ''password''"
  let ?w1 = "w\<lparr>hashed := hashed w @ [?pw]\<rparr>"
  note unf = register_past_validation [OF assms(1,2), of L w]
  have t: "s \<in> set (map username (users ?w1))"
    using assms(4) by simp
  have resp: "fst (register L req w) = (500, Message ''Internal server error'')
      \<and> users (snd (register L req w)) = users w"
  proof (cases "bcrypt_hash_fn L ?pw")
    case (Inl e)
    then show ?thesis
      by (simp add: unf internal_error_def console_def)
  next
    case (Inr hp)
    obtain e w2 where c: "create L (field (body req) ''username'') hp (field (body req) ''name'')
        (field (body req) ''role'') (field (body req) ''department'') ?w1 = (Inl e, w2)"
      using create_taken [OF assms(3) t, of hp] by (metis prod.collapse)
    from create_error_keeps [OF c] Inr c show ?thesis
      by (simp add: unf internal_error_def console_def)
  qed
  have dup: "logs (snd (register L req w)) = logs w @ [Failure ''Register error:'' DuplicateKey]"
    if b: "bcrypt_hash_fn L (field (body req) ''password'') = Inr h
         \<and> cast_opt L (field (body req) ''name'') = Inr n
         \<and> cast_opt L (field (body req) ''role'') = Inr r
         \<and> cast_opt L (field (body req) ''department'') = Inr d
         \<and> \<not> next_fault w"
  proof -
    from b have "\<not> next_fault ?w1" by (simp add: next_fault_def)
    with b have "create L (field (body req) ''username'') h (field (body req) ''name'')
        (field (body req) ''role'') (field (body req) ''department'') ?w1
        = (Inl DuplicateKey, consume ?w1)"
      using create_duplicate [OF assms(3) t] by blast
    with b show ?thesis
      by (simp add: unf internal_error_def console_def consume_def)
  qed
  from resp dup show ?thesis by blast
qed

theorem register_duplicate_witness:
  "fst (register demo_libs (demo_creds ''admin'' ''pw'') seeded_world)
     = (500, Message ''Internal server error'')
   \<and> users (snd (register demo_libs (demo_creds ''admin'' ''pw'') seeded_world)) = seeded_users
   \<and> logs (snd (register demo_libs (demo_creds ''admin'' ''pw'') seeded_world))
     = [Info ''Admin user seeded'', Info ''Officer user seeded'',
        Failure ''Register error:'' DuplicateKey]"
proof -
  have t: "truthy (field (body (demo_creds ''admin'' ''pw'')) ''username'')"
    "truthy (field (body (demo_creds ''admin'' ''pw'')) ''password'')"
    by (simp_all add: demo_fields)
  have c: "cast_string demo_libs (field (body (demo_creds ''admin'' ''pw'')) ''username'') = Inr ''admin''"
    by (simp add: demo_fields cast_string_def)
  have m: "''admin'' \<in> set (map username (users seeded_world))"
    by (simp add: seeded_users_eq seeded_users_def)
  have h: "bcrypt_hash_fn demo_libs (field (body (demo_creds ''admin'' ''pw'')) ''password'') = Inr ''$wp''"
    by (simp add: demo_fields demo_libs_def)
  have o: "cast_opt demo_libs (field (body (demo_creds ''admin'' ''pw'')) ''name'') = Inr Unset"
    "cast_opt demo_libs (field (body (demo_creds ''admin'' ''pw'')) ''role'') = Inr Unset"
    "cast_opt demo_libs (field (body (demo_creds ''admin'' ''pw'')) ''department'') = Inr Unset"
    by (simp_all add: demo_fields cast_opt_def)
  have l: "logs seeded_world = [Info ''Admin user seeded'', Info ''Officer user seeded'']"
    by (simp add: seeded_world_def)
  show ?thesis
    using register_duplicate [OF t c m, of "''$wp''" Unset Unset Unset] h o seeded_no_fault
    by (simp add: seeded_users_eq l)
qed

section \<open>Login\<close>

lemma findOne_ok:
  "cast_string L q = Inr s \<Longrightarrow> \<not> next_fault w \<Longrightarrow>
     findOne L q w = (Inr (find (\<lambda>u. username u = s) (users w)), consume w)"
  by (simp add: findOne_def)

lemma find_unknown: "(\<forall>u\<in>set us. username u \<noteq> s) \<Longrightarrow> find (\<lambda>u. username u = s) us = None"
  by (simp add: find_None_iff)

lemma login_past_validation:
  assumes "truthy (field (body req) ''username'')" and "truthy (field (body req) ''password'')"
    and "cast_string L (field (body req) ''username'') = Inr s" and "\<not> next_fault w"
  shows "login L now req w =
    (case find (\<lambda>u. username u = s) (users w) of
       None \<Rightarrow> ((401, Message ''Invalid credentials''), consume w)
     | Some usr \<Rightarrow>
         (case bcrypt_compare_fn L (field (body req) ''password'') (password usr) of
            Inl e \<Rightarrow> internal_error ''Login error:'' e (consume w)
          | Inr ok \<Rightarrow>
              if \<not> ok then ((401, Message ''Invalid credentials''), consume w)
              else ((200, LoginBody ''Login successful''
                      (jwt_sign L (uid usr, username usr, role usr) JWT_SECRET expires_24h now)
                      (omit ''password'' (toObject usr))), consume w)))"
  using assms
  by (simp add: login_def Let_def findOne_ok split: option.splits sum.splits)

text \<open>
  When \<open>bcrypt.compare\<close> returns, the two failures of a login attempt are answered alike:
  for a request with a truthy username and password, an unknown username and a known
  username whose comparison returns \<open>false\<close> both get 401 with
  \<open>{message: 'Invalid credentials'}\<close>, in the database variant (the lookup itself not
  failing) and in the static variant.
\<close>

lemma invalid_credentials_when_compare_returns:
  assumes "truthy (field (body req) ''username'')" and "truthy (field (body req) ''password'')"
  shows
   "(cast_string L (field (body req) ''username'') = Inr s \<and> \<not> next_fault w
       \<and> (\<forall>u\<in>set (users w). username u \<noteq> s)
      \<longrightarrow> fst (login L now req w) = (401, Message ''Invalid credentials''))
    \<and> (cast_string L (field (body req) ''username'') = Inr s \<and> \<not> next_fault w
       \<and> find (\<lambda>u. username u = s) (users w) = Some usr
       \<and> bcrypt_compare_fn L (field (body req) ''password'') (password usr) = Inr False
      \<longrightarrow> fst (login L now req w) = (401, Message ''Invalid credentials''))
    \<and> (findUserByUsername (field (body req) ''username'') = None
      \<longrightarrow> login_static L now req = (401, Message ''Invalid credentials''))
    \<and> (findUserByUsername (field (body req) ''username'') = Some usr
       \<and> bcrypt_compare_fn L (field (body req) ''password'') (password usr) = Inr False
      \<longrightarrow> login_static L now req = (401, Message ''Invalid credentials''))"
proof -
  have unknown: "fst (login L now req w) = (401, Message ''Invalid credentials'')"
    if "cast_string L (field (body req) ''username'') = Inr s \<and> \<not> next_fault w
       \<and> (\<forall>u\<in>set (users w). username u \<noteq> s)"
    using that assms by (simp add: login_past_validation find_unknown)
  have wrong: "fst (login L now req w) = (401, Message ''Invalid credentials'')"
    if "cast_string L (field (body req) ''username'') = Inr s \<and> \<not> next_fault w
       \<and> find (\<lambda>u. username u = s) (users w) = Some usr
       \<and> bcrypt_compare_fn L (field (body req) ''password'') (password usr) = Inr False"
    using that assms by (simp add: login_past_validation)
  have s_unknown: "login_static L now req = (401, Message ''Invalid credentials'')"
    if "findUserByUsername (field (body req) ''username'') = None"
    using that assms by (simp add: login_static_def Let_def)
  have s_wrong: "login_static L now req = (401, Message ''Invalid credentials'')"
    if "findUserByUsername (field (body req) ''username'') = Some usr
       \<and> bcrypt_compare_fn L (field (body req) ''password'') (password usr) = Inr False"
    using that assms by (simp add: login_static_def Let_def)
  from unknown wrong s_unknown s_wrong show ?thesis by blast
qed

text \<open>
  C1 asks that an unknown username and a known username whose password does not verify
  be answered alike. The code answers them differently when \<open>bcrypt.compare\<close> throws
  instead of returning \<open>false\<close>, as it does for a password that is not a string: for a
  request with a truthy username and password, the known username is answered 500
  \<open>{message: 'Internal server error'}\<close> by the handler's \<open>catch\<close>, and an unknown
  username, with the same password, 401 \<open>{message: 'Invalid credentials'}\<close>. Both
  variants do so.
\<close>

theorem login_throwing_compare_distinguishes:
  assumes "truthy (field (body req) ''username'')" and "truthy (field (body req) ''password'')"
  shows
   "(cast_string L (field (body req) ''username'') = Inr s \<and> \<not> next_fault w
       \<and> find (\<lambda>u. username u = s) (users w) = Some usr
       \<and> bcrypt_compare_fn L (field (body req) ''password'') (password usr) = Inl e
      \<longrightarrow> fst (login L now req w) = (500, Message ''Internal server error''))
    \<and> (cast_string L (field (body req) ''username'') = Inr s \<and> \<not> next_fault w
       \<and> (\<forall>u\<in>set (users w). username u \<noteq> s)
      \<longrightarrow> fst (login L now req w) = (401, Message ''Invalid credentials''))
    \<and> (findUserByUsername (field (body req) ''username'') = Some usr
       \<and> bcrypt_compare_fn L (field (body req) ''password'') (password usr) = Inl e
      \<longrightarrow> login_static L now req = (500, Message ''Internal server error''))
    \<and> (findUserByUsername (field (body req) ''username'') = None
      \<longrightarrow> login_static L now req = (401, Message ''Invalid credentials''))"
proof -
  have known: "fst (login L now req w) = (500, Message ''Internal server error'')"
    if "cast_string L (field (body req) ''username'') = Inr s \<and> \<not> next_fault w
       \<and> find (\<lambda>u. username u = s) (users w) = Some usr
       \<and> bcrypt_compare_fn L (field (body req) ''password'') (password usr) = Inl e"
    using that assms by (simp add: login_past_validation internal_error_def)
  have unknown: "fst (login L now req w) = (401, Message ''Invalid credentials'')"
    if "cast_string L (field (body req) ''username'') = Inr s \<and> \<not> next_fault w
       \<and> (\<forall>u\<in>set (users w). username u \<noteq> s)"
    using that assms by (simp add: login_past_validation find_unknown)
  have s_known: "login_static L now req = (500, Message ''Internal server error'')"
    if "findUserByUsername (field (body req) ''username'') = Some usr
       \<and> bcrypt_compare_fn L (field (body req) ''password'') (password usr) = Inl e"
    using that assms by (simp add: login_static_def Let_def)
  have s_unknown: "login_static L now req = (401, Message ''Invalid credentials'')"
    if "findUserByUsername (field (body req) ''username'') = None"
    using that assms by (simp add: login_static_def Let_def)
  from known unknown s_known s_unknown show ?thesis by blast
qed

theorem login_throwing_compare_distinguishes_witness:
  "bcrypt_compare_fn demo_libs (JNum 123) (password (hd seeded_users)) = Inl BcryptError
   \<and> fst (login demo_libs 1000 (demo_numeric ''admin'') seeded_world)
     = (500, Message ''Internal server error'')
   \<and> fst (login demo_libs 1000 (demo_numeric ''ghost'') seeded_world)
     = (401, Message ''Invalid credentials'')
   \<and> login_static demo_libs 1000 (demo_numeric ''admin'')
     = (500, Message ''Internal server error'')
   \<and> login_static demo_libs 1000 (demo_numeric ''ghost'')
     = (401, Message ''Invalid credentials'')"
proof -
  have f: "field (body (demo_numeric u)) ''username'' = JStr u"
      "field (body (demo_numeric u)) ''password'' = JNum 123" for u
    by (simp_all add: demo_numeric_def demo_request_def field_def)
  have tg: "truthy (field (body (demo_numeric ''ghost'')) ''username'')"
      "truthy (field (body (demo_numeric ''ghost'')) ''password'')"
    and ta: "truthy (field (body (demo_numeric ''admin'')) ''username'')"
      "truthy (field (body (demo_numeric ''admin'')) ''password'')"
    by (simp_all add: f)
  have g: "\<forall>u\<in>set (users seeded_world). username u \<noteq> ''ghost''"
    by (simp add: seeded_users_eq seeded_users_def)
  have a: "find (\<lambda>u. username u = ''admin'') (users seeded_world) = Some (hd seeded_users)"
    by (simp add: seeded_users_eq seeded_users_def)
  have b: "bcrypt_compare_fn demo_libs (JNum 123) (password usr) = Inl BcryptError"
    for usr :: user_doc
    by (simp add: demo_libs_def)
  have sg: "findUserByUsername (JStr ''ghost'') = None"
    by (simp add: findUserByUsername_def STATIC_USERS_def)
  have sa: "findUserByUsername (JStr ''admin'') = Some (hd STATIC_USERS)"
    by (simp add: findUserByUsername_def STATIC_USERS_def)
  note ghost = login_throwing_compare_distinguishes [where req = "demo_numeric ''ghost''"
      and L = demo_libs and s = "''ghost''" and w = seeded_world and now = 1000
      and usr = "hd seeded_users" and e = BcryptError, OF tg]
  note admin = login_throwing_compare_distinguishes [where req = "demo_numeric ''admin''"
      and L = demo_libs and s = "''admin''" and w = seeded_world and now = 1000
      and usr = "hd seeded_users" and e = BcryptError, OF ta]
  note admin_static = login_throwing_compare_distinguishes [where req = "demo_numeric ''admin''"
      and L = demo_libs and s = "''admin''" and w = seeded_world and now = 1000
      and usr = "hd STATIC_USERS" and e = BcryptError, OF ta]
  from ghost
  have 2: "fst (login demo_libs 1000 (demo_numeric ''ghost'') seeded_world)
     = (401, Message ''Invalid credentials'')"
    and 4: "login_static demo_libs 1000 (demo_numeric ''ghost'')
     = (401, Message ''Invalid credentials'')"
    by (simp_all add: f cast_string_def g sg seeded_no_fault)
  from admin
  have 1: "fst (login demo_libs 1000 (demo_numeric ''admin'') seeded_world)
     = (500, Message ''Internal server error'')"
    by (simp add: f cast_string_def a b seeded_no_fault)
  from admin_static
  have 3: "login_static demo_libs 1000 (demo_numeric ''admin'')
     = (500, Message ''Internal server error'')"
    by (simp add: sa b f)
  from 1 2 3 4 b show ?thesis by simp
qed

section \<open>No password in a response\<close>

lemma omit_no_key: "\<not> has_key (omit k ob) k"
  by (auto simp: has_key_def omit_def)

lemma select_minus_no_key: "\<not> has_key (select_minus k u) k"
  by (auto simp: has_key_def select_minus_def)

lemma login_no_password: "\<not> exposes_password (snd (fst (login L now req w)))"
proof -
  have msg: "\<not> exposes_password (Message m)" for m
    by (simp add: exposes_password_def)
  have ok: "\<not> exposes_password (LoginBody m t (omit ''password'' ob))" for m t ob
    by (simp add: exposes_password_def omit_no_key)
  show ?thesis
    unfolding login_def Let_def
    by (cases "findOne L (field (body req) ''username'') w")
       (auto simp: msg ok internal_error_def split: sum.splits option.splits)
qed

lemma login_static_no_password: "\<not> exposes_password (snd (login_static L now req))"
proof -
  have msg: "\<not> exposes_password (Message m)" for m
    by (simp add: exposes_password_def)
  have ok: "\<not> exposes_password (LoginBody m t (omit ''password'' ob))" for m t ob
    by (simp add: exposes_password_def omit_no_key)
  show ?thesis
    unfolding login_static_def Let_def
    by (auto simp: msg ok split: sum.splits option.splits)
qed

lemma user_handler_no_password: "\<not> exposes_password (snd (fst (user_handler L req w)))"
proof -
  have msg: "\<not> exposes_password (Message m)" for m
    by (simp add: exposes_password_def)
  have ok: "\<not> exposes_password (UserBody (select_minus ''password'' u))" for u
    by (simp add: exposes_password_def select_minus_no_key)
  show ?thesis
  proof (cases "user req")
    case None
    then show ?thesis by (simp add: user_handler_def internal_error_def msg)
  next
    case (Some c)
    then show ?thesis
      by (cases "findById L (claim_id c) w")
         (auto simp: user_handler_def internal_error_def msg ok split: sum.splits option.splits)
  qed
qed

lemma get_user_no_password: "\<not> exposes_password (snd (fst (get_user L now req w)))"
proof (cases "authenticateToken L now req")
  case (Responded r)
  then have "snd r = Message ''Access token required'' \<or> snd r = Message ''Invalid or expired token''"
    by (auto simp: authenticateToken_def split: option.splits if_splits sum.splits)
  with Responded show ?thesis
    by (auto simp: get_user_def protected_def exposes_password_def)
next
  case (Next r)
  then show ?thesis
    by (simp add: get_user_def protected_def user_handler_no_password)
qed

lemma demo_login_ok:
  "fst (login demo_libs 1000 (demo_creds ''admin'' ''government123'') seeded_world)
     = (200, LoginBody ''Login successful'' ''H.P.S''
         [(''_id'', JObjectId 0), (''username'', JStr ''admin''),
          (''name'', JStr ''Administrator''), (''role'', JStr ''admin''),
          (''department'', JStr ''System Administration''), (''__v'', JNum 0)])"
proof -
  have c: "cast_string demo_libs (JStr ''admin'') = Inr ''admin''"
    by (simp add: cast_string_def)
  have f: "find (\<lambda>u. username u = ''admin'') (users seeded_world) = Some (hd seeded_users)"
    by (simp add: seeded_users_eq seeded_users_def)
  have b: "bcrypt_compare_fn demo_libs (JStr ''government123'') (password (hd seeded_users)) = Inr True"
    by (simp add: demo_libs_def seeded_users_def)
  have h: "uid (hd seeded_users) = JObjectId 0" "username (hd seeded_users) = ''admin''"
    "role (hd seeded_users) = Text ''admin''"
    by (simp_all add: seeded_users_def)
  have ob: "omit ''password'' (toObject (hd seeded_users)) =
         [(''_id'', JObjectId 0), (''username'', JStr ''admin''),
          (''name'', JStr ''Administrator''), (''role'', JStr ''admin''),
          (''department'', JStr ''System Administration''), (''__v'', JNum 0)]"
    by (simp add: omit_def toObject_def opt_field_def seeded_users_def)
  show ?thesis
    by (simp add: login_past_validation [where s = "''admin''"] demo_fields c f b h ob
        seeded_no_fault demo_sign)
qed

lemma demo_get_user_ok:
  "fst (get_user demo_libs 1000 (demo_request (Some ''Bearer H.P.S'') []) seeded_world)
     = (200, UserBody
         [(''_id'', JObjectId 0), (''username'', JStr ''admin''),
          (''name'', JStr ''Administrator''), (''role'', JStr ''admin''),
          (''department'', JStr ''System Administration''), (''__v'', JNum 0)])"
proof -
  have g: "authenticateToken demo_libs 1000 (demo_request (Some ''Bearer H.P.S'') [])
            = Next ((demo_request (Some ''Bearer H.P.S'') [])\<lparr>user := Some demo_claims\<rparr>)"
    by (simp add: authenticateToken_def header_token_def index_opt_def demo_request_def
        demo_verify_good)
  have f: "findById demo_libs (claim_id demo_claims) seeded_world
            = (Inr (Some (hd seeded_users)), consume seeded_world)"
    by (simp add: findById_def cast_id_def demo_claims_def seeded_no_fault seeded_users_eq
        seeded_users_def)
  have ob: "select_minus ''password'' (hd seeded_users) =
         [(''_id'', JObjectId 0), (''username'', JStr ''admin''),
          (''name'', JStr ''Administrator''), (''role'', JStr ''admin''),
          (''department'', JStr ''System Administration''), (''__v'', JNum 0)]"
    by (simp add: select_minus_def toObject_def opt_field_def seeded_users_def)
  show ?thesis
    by (simp add: get_user_def protected_def g user_handler_def f ob)
qed

text \<open>
  C7. No response of \<open>POST /api/login\<close> (either variant) or of \<open>GET /api/user\<close> carries a
  user object with a \<open>password\<close> key; in particular the user object of every successful
  login and of every successful \<open>GET /api/user\<close> has none.
\<close>

theorem password_never_serialized:
  "\<not> exposes_password (snd (fst (login L now req w)))
   \<and> \<not> exposes_password (snd (fst (get_user L now req w)))
   \<and> \<not> exposes_password (snd (login_static L now req))
   \<and> (\<forall>m t ob. fst (login L now req w) = (200, LoginBody m t ob) \<longrightarrow> \<not> has_key ob ''password'')
   \<and> (\<forall>ob. fst (get_user L now req w) = (200, UserBody ob) \<longrightarrow> \<not> has_key ob ''password'')"
proof -
  have a: "\<not> has_key ob ''password''" if "fst (login L now req w) = (200, LoginBody m t ob)" for m t ob
    using login_no_password [of L now req w] that by (simp add: exposes_password_def)
  have b: "\<not> has_key ob ''password''" if "fst (get_user L now req w) = (200, UserBody ob)" for ob
    using get_user_no_password [of L now req w] that by (simp add: exposes_password_def)
  from a b show ?thesis
    using login_no_password get_user_no_password login_static_no_password by blast
qed

theorem password_never_serialized_witness:
  "fst (login demo_libs 1000 (demo_creds ''admin'' ''government123'') seeded_world)
     = (200, LoginBody ''Login successful'' ''H.P.S''
         [(''_id'', JObjectId 0), (''username'', JStr ''admin''),
          (''name'', JStr ''Administrator''), (''role'', JStr ''admin''),
          (''department'', JStr ''System Administration''), (''__v'', JNum 0)])
   \<and> fst (get_user demo_libs 1000 (demo_request (Some ''Bearer H.P.S'') []) seeded_world)
     = (200, UserBody
         [(''_id'', JObjectId 0), (''username'', JStr ''admin''),
          (''name'', JStr ''Administrator''), (''role'', JStr ''admin''),
          (''department'', JStr ''System Administration''), (''__v'', JNum 0)])
   \<and> \<not> has_key [(''_id'', JObjectId 0), (''username'', JStr ''admin''),
          (''name'', JStr ''Administrator''), (''role'', JStr ''admin''),
          (''department'', JStr ''System Administration''), (''__v'', JNum 0)] ''password''
   \<and> has_key (toObject (hd seeded_users)) ''password''"
proof -
  have k: "has_key (toObject (hd seeded_users)) ''password''"
    by (simp add: has_key_def toObject_def)
  have "\<not> has_key [(''_id'', JObjectId 0), (''username'', JStr ''admin''),
          (''name'', JStr ''Administrator''), (''role'', JStr ''admin''),
          (''department'', JStr ''System Administration''), (''__v'', JNum 0)] ''password''"
    using password_never_serialized [of demo_libs 1000 "demo_creds ''admin'' ''government123''"
        seeded_world] demo_login_ok
    by blast
  with k demo_login_ok demo_get_user_ok show ?thesis by blast
qed

section \<open>The seeder\<close>

lemma no_faults: "faults w = [] \<Longrightarrow> \<not> next_fault w \<and> consume w = w"
  by (simp add: next_fault_def consume_def)

lemma findOne_str:
  "\<not> next_fault w \<Longrightarrow>
     findOne L (JStr s) w = (Inr (find (\<lambda>u. username u = s) (users w)), consume w)"
  by (simp add: findOne_ok cast_string_def)

lemma find_username_None:
  "find (\<lambda>u. username u = s) us = None \<longleftrightarrow> s \<notin> set (map username us)"
  by (auto simp: find_None_iff)

lemma cast_opt_str: "cast_opt L (JStr s) = Inr (Text s)"
  by (simp add: cast_opt_def cast_string_def)

lemma seed_block_fresh:
  assumes "bcrypt_hash_fn L (JStr pw) = Inr h" and "\<not> next_fault w"
    and "un \<notin> set (map username (users w))"
  shows "seed_block L un pw nm rl dp msg w =
    Inr (w\<lparr>users := users w @ [\<lparr>uid = JObjectId (next_id w), username = un, password = h,
                                  name = Text nm, role = Text rl, department = Text dp\<rparr>],
           next_id := Suc (next_id w),
           hashed := hashed w @ [JStr pw],
           faults := tl (faults w),
           logs := logs w @ [Info msg]\<rparr>)"
proof -
  let ?w1 = "w\<lparr>hashed := hashed w @ [JStr pw]\<rparr>"
  have c: "cast_string L (JStr un) = Inr un"
    by (simp add: cast_string_def)
  have f: "\<not> next_fault ?w1" "un \<notin> set (map username (users ?w1))"
    using assms by (simp_all add: next_fault_def)
  show ?thesis
    by (simp add: seed_block_def bcrypt_hash_def assms(1)
        create_fresh [OF c cast_opt_str cast_opt_str cast_opt_str f] consume_def console_def)
qed

lemma seed_block_store_fails:
  assumes "bcrypt_hash_fn L (JStr pw) = Inr h" and "next_fault w"
  shows "seed_block L un pw nm rl dp msg w =
    Inl (StoreError, w\<lparr>hashed := hashed w @ [JStr pw], faults := tl (faults w)\<rparr>)"
proof -
  have "next_fault (w\<lparr>hashed := hashed w @ [JStr pw]\<rparr>)"
    using assms(2) by (simp add: next_fault_def)
  then show ?thesis
    by (simp add: seed_block_def bcrypt_hash_def assms(1) create_def cast_string_def
        cast_opt_str consume_def)
qed

lemma seed_lookups:
  assumes "\<not> next_fault w" and "\<not> next_fault (consume w)"
  shows "seedDefaultUsers L w =
     (case (if find (\<lambda>u. username u = ''admin'') (users w) = None
            then seed_block L ''admin'' ''government123'' ''Administrator'' ''admin''
                   ''System Administration'' ''Admin user seeded'' (consume (consume w))
            else Inr (consume (consume w))) of
        Inl (e, w3) \<Rightarrow> seed_catch e w3
      | Inr w3 \<Rightarrow>
     (case (if find (\<lambda>u. username u = ''officer'') (users w) = None
            then seed_block L ''officer'' ''officer456'' ''John Officer'' ''officer''
                   ''Public Services'' ''Officer user seeded'' w3
            else Inr w3) of
        Inl (e, w4) \<Rightarrow> seed_catch e w4
      | Inr w4 \<Rightarrow> w4))"
proof -
  have u: "users (consume w) = users w"
    by (simp add: consume_def)
  show ?thesis
    unfolding seedDefaultUsers_def
    by (simp only: findOne_str [OF assms(1)] findOne_str [OF assms(2)] u prod.case sum.case)
qed

lemma seed_both_present:
  assumes "faults w = []" and "''admin'' \<in> set (map username (users w))"
    and "''officer'' \<in> set (map username (users w))"
  shows "seedDefaultUsers L w = w"
proof -
  note nf = no_faults [OF assms(1)]
  have a: "find (\<lambda>u. username u = ''admin'') (users w) \<noteq> None"
    and b: "find (\<lambda>u. username u = ''officer'') (users w) \<noteq> None"
    using assms(2,3) by (simp_all only: find_username_None not_not)
  have "\<not> next_fault w" "\<not> next_fault (consume w)"
    using nf by simp_all
  from seed_lookups [OF this] a b nf show ?thesis
    by simp
qed

lemma seed_first_run:
  assumes nf: "faults w = []"
    and ha: "bcrypt_hash_fn L (JStr ''government123'') = Inr h1"
    and ho: "bcrypt_hash_fn L (JStr ''officer456'') = Inr h2"
    and d: "distinct (map username (users w))"
  shows "faults (seedDefaultUsers L w) = []
    \<and> ''admin'' \<in> set (map username (users (seedDefaultUsers L w)))
    \<and> ''officer'' \<in> set (map username (users (seedDefaultUsers L w)))
    \<and> distinct (map username (users (seedDefaultUsers L w)))
    \<and> (\<exists>new. users (seedDefaultUsers L w) = users w @ new)"
proof -
  note f = no_faults [OF nf]
  have l: "\<not> next_fault w" "\<not> next_fault (consume w)"
    using f by simp_all
  note run = seed_lookups [OF l, of L, unfolded find_username_None]
  let ?adm = "\<lparr>uid = JObjectId (next_id w), username = ''admin'', password = h1,
               name = Text ''Administrator'', role = Text ''admin'',
               department = Text ''System Administration''\<rparr>"
  let ?w3 = "w\<lparr>users := users w @ [?adm], next_id := Suc (next_id w),
               hashed := hashed w @ [JStr ''government123''], faults := tl (faults w),
               logs := logs w @ [Info ''Admin user seeded'']\<rparr>"
  have f3: "\<not> next_fault ?w3"
    using nf by (simp add: next_fault_def)
  show ?thesis
  proof (cases "''admin'' \<in> set (map username (users w))")
    case a: True
    show ?thesis
    proof (cases "''officer'' \<in> set (map username (users w))")
      case True
      with a d nf show ?thesis
        by (simp add: seed_both_present)
    next
      case o: False
      have "seed_block L ''officer'' ''officer456'' ''John Officer'' ''officer''
              ''Public Services'' ''Officer user seeded'' w = Inr
          (w\<lparr>users := users w
                  @ [\<lparr>uid = JObjectId (next_id w), username = ''officer'', password = h2,
                      name = Text ''John Officer'', role = Text ''officer'',
                      department = Text ''Public Services''\<rparr>],
             next_id := Suc (next_id w), hashed := hashed w @ [JStr ''officer456''],
             faults := tl (faults w), logs := logs w @ [Info ''Officer user seeded'']\<rparr>)"
        using o by (intro seed_block_fresh [OF ho l(1)]) simp
      with a o d nf f show ?thesis
        by (simp add: run)
    qed
  next
    case a: False
    have b3: "seed_block L ''admin'' ''government123'' ''Administrator'' ''admin''
              ''System Administration'' ''Admin user seeded'' w = Inr ?w3"
      using a by (intro seed_block_fresh [OF ha l(1)]) simp
    show ?thesis
    proof (cases "''officer'' \<in> set (map username (users w))")
      case o: True
      with a b3 d nf f show ?thesis
        by (simp add: run)
    next
      case o: False
      have "''officer'' \<notin> set (map username (users ?w3))"
        using o by simp
      from seed_block_fresh [OF ho f3 this]
      have "seed_block L ''officer'' ''officer456'' ''John Officer'' ''officer''
              ''Public Services'' ''Officer user seeded'' ?w3 = Inr
          (?w3\<lparr>users := users ?w3
                  @ [\<lparr>uid = JObjectId (next_id ?w3), username = ''officer'', password = h2,
                      name = Text ''John Officer'', role = Text ''officer'',
                      department = Text ''Public Services''\<rparr>],
             next_id := Suc (next_id ?w3), hashed := hashed ?w3 @ [JStr ''officer456''],
             faults := tl (faults ?w3), logs := logs ?w3 @ [Info ''Officer user seeded'']\<rparr>)" .
      with a o b3 d nf f show ?thesis
        by (simp add: run)
    qed
  qed
qed

lemma count_one:
  "distinct (map f xs) \<Longrightarrow> x \<in> set (map f xs) \<Longrightarrow> length (filter (\<lambda>u. f u = x) xs) = 1"
proof (induction xs)
  case Nil
  then show ?case by simp
next
  case (Cons y ys)
  show ?case
  proof (cases "f y = x")
    case True
    with Cons.prems have "x \<notin> f ` set ys" by simp
    then have "\<forall>u\<in>set ys. f u \<noteq> x" by blast
    then have "filter (\<lambda>u. f u = x) ys = []" by (simp add: filter_empty_conv)
    with True show ?thesis by simp
  next
    case False
    with Cons show ?thesis by auto
  qed
qed

text \<open>
  C5. The seeder is idempotent. On a collection that respects the unique index, with no
  store failure and with \<open>bcrypt\<close> hashing the two default passwords, two runs in a row
  leave exactly one user named \<open>admin\<close> and exactly one named \<open>officer\<close>; the second run
  stores nothing and computes no hash; and the first run only appends to what was
  stored.
\<close>

theorem seeder_idempotent:
  assumes "faults w = []"
    and "bcrypt_hash_fn L (JStr ''government123'') = Inr h1"
    and "bcrypt_hash_fn L (JStr ''officer456'') = Inr h2"
    and "distinct (map username (users w))"
  shows "length (filter (\<lambda>u. username u = ''admin'')
                  (users (seedDefaultUsers L (seedDefaultUsers L w)))) = 1
    \<and> length (filter (\<lambda>u. username u = ''officer'')
                  (users (seedDefaultUsers L (seedDefaultUsers L w)))) = 1
    \<and> users (seedDefaultUsers L (seedDefaultUsers L w)) = users (seedDefaultUsers L w)
    \<and> hashed (seedDefaultUsers L (seedDefaultUsers L w)) = hashed (seedDefaultUsers L w)
    \<and> (\<exists>new. users (seedDefaultUsers L w) = users w @ new)"
proof -
  note first = seed_first_run [OF assms]
  then have again: "seedDefaultUsers L (seedDefaultUsers L w) = seedDefaultUsers L w"
    by (intro seed_both_present) simp_all
  from first show ?thesis
    unfolding again by (simp add: count_one)
qed

theorem seeder_idempotent_witness:
  "faults empty_world = [] \<and> distinct (map username (users empty_world))
   \<and> seedDefaultUsers demo_libs empty_world = seeded_world
   \<and> users (seedDefaultUsers demo_libs seeded_world) = users seeded_world
   \<and> hashed (seedDefaultUsers demo_libs seeded_world) = hashed seeded_world
   \<and> hashed seeded_world = [JStr ''government123'', JStr ''officer456'']
   \<and> length (filter (\<lambda>u. username u = ''admin'')
               (users (seedDefaultUsers demo_libs seeded_world))) = 1
   \<and> length (filter (\<lambda>u. username u = ''officer'')
               (users (seedDefaultUsers demo_libs seeded_world))) = 1"
proof -
  have h: "bcrypt_hash_fn demo_libs (JStr ''government123'') = Inr ''$321tnemnrevog''"
    "bcrypt_hash_fn demo_libs (JStr ''officer456'') = Inr ''$654reciffo''"
    by (simp_all add: demo_libs_def)
  have e: "faults empty_world = []" "distinct (map username (users empty_world))"
    by (simp_all add: empty_world_def)
  have s: "hashed seeded_world = [JStr ''government123'', JStr ''officer456'']"
    by (simp add: seeded_world_def)
  note r = seeder_idempotent [OF e(1) h e(2), unfolded seed_empty]
  from r s e seed_empty show ?thesis
    by blast
qed

text \<open>
  C6, as the code has it. Both blocks stand in one \<open>try\<close>. When \<open>admin\<close> is absent, the
  two lookups succeed and the store rejects \<open>User.create\<close> of the admin account, the error
  is caught and logged and the seeder returns, so startup goes on; but the run ends
  there: the collection is as it was, no further store call is made and no hash is
  computed for \<open>officer\<close>, which was looked up before the failure and is not created in
  this run, whether it was absent or not.
\<close>

theorem seeder_failure_is_caught:
  assumes "faults w = False # False # True # fs"
    and "''admin'' \<notin> set (map username (users w))"
    and "bcrypt_hash_fn L (JStr ''government123'') = Inr h"
  shows "seedDefaultUsers L w =
           w\<lparr>hashed := hashed w @ [JStr ''government123''], faults := fs,
             logs := logs w @ [Failure ''Error seeding users:'' StoreError]\<rparr>"
proof -
  have l: "\<not> next_fault w" "\<not> next_fault (consume w)"
    using assms(1) by (simp_all add: next_fault_def consume_def)
  have f: "next_fault (consume (consume w))"
    using assms(1) by (simp add: next_fault_def consume_def)
  have a: "find (\<lambda>u. username u = ''admin'') (users w) = None"
    using assms(2) by (simp add: find_username_None)
  have "seed_block L ''admin'' ''government123'' ''Administrator'' ''admin''
          ''System Administration'' ''Admin user seeded'' (consume (consume w))
        = Inl (StoreError, w\<lparr>hashed := hashed w @ [JStr ''government123''], faults := fs\<rparr>)"
    using assms(1) seed_block_store_fails [OF assms(3) f, of "''admin''" "''Administrator''" "''admin''"
        "''System Administration''" "''Admin user seeded''"]
    by (simp add: consume_def)
  then show ?thesis
    by (simp add: seed_lookups [OF l] a seed_catch_def console_def)
qed

theorem seeder_failure_is_caught_witness:
  "faults faulty_world = [False, False, True]
   \<and> ''admin'' \<notin> set (map username (users faulty_world))
   \<and> seedDefaultUsers demo_libs faulty_world =
        faulty_world\<lparr>hashed := [JStr ''government123''], faults := [],
                      logs := [Failure ''Error seeding users:'' StoreError]\<rparr>"
proof -
  have f: "faults faulty_world = False # False # True # []"
    and a: "''admin'' \<notin> set (map username (users faulty_world))"
    by (simp_all add: faulty_world_def empty_world_def)
  have h: "bcrypt_hash_fn demo_libs (JStr ''government123'') = Inr ''$321tnemnrevog''"
    by (simp add: demo_libs_def)
  have e: "hashed faulty_world = []" "logs faulty_world = []"
    by (simp_all add: faulty_world_def empty_world_def)
  from seeder_failure_is_caught [OF f a h] f a e show ?thesis
    by simp
qed

text \<open>C6 as stated fails: on an empty collection where only the creation of \<open>admin\<close>
  fails, the run ends with no user stored, so \<open>officer\<close> has not been seeded, and with
  only the admin password hashed.\<close>

theorem seeder_blocks_officer_counterexample:
  "users (seedDefaultUsers demo_libs faulty_world) = []
   \<and> hashed (seedDefaultUsers demo_libs faulty_world) = [JStr ''government123'']
   \<and> faults (seedDefaultUsers demo_libs faulty_world) = []
   \<and> logs (seedDefaultUsers demo_libs faulty_world)
       = [Failure ''Error seeding users:'' StoreError]"
  by (simp add: seedDefaultUsers_def seed_block_def seed_catch_def findOne_def create_def
      bcrypt_hash_def cast_string_def cast_opt_def next_fault_def consume_def console_def
      Let_def demo_libs_def empty_world_def faulty_world_def)

end
